theory Spec2Isabelle
  imports Complex_Main "HOL-Library.AList" "HOL-Library.Multiset"
begin

section \<open>Data model of \<open>SimEngine/Mote.py\<close>\<close>

text \<open>
  The mote of the 6TiSCH simulator is a Python object whose methods mutate its fields.
  Each method is embedded as a function from the mote (and the values it reads from the
  engine and the settings) to the updated mote. A failed \<open>assert\<close> and a missing
  dictionary key are results of their own. Motes are identified by their \<open>id\<close>; Python
  dictionaries are association lists whose order is the iteration order of the
  dictionary, each key occurring once. Python floats are idealised as exact rationals.
  Left out are the energy accounting, the queue-delay, latency and experiment statistics
  (only \<open>motestats\<close> is kept), and the calls into the engine and the propagation model,
  which schedule and remove events: none of them writes a field that the functions
  embedded here read. Of a logging call only the evaluation of its arguments is kept,
  where it can raise. \<open>settings.modulationSlots\<close> is the table
  \<open>Modulation().modulationSlots[settings.modulationConfig]\<close> of the modulation module.
\<close>

datatype error =
    AssertionError | KeyError | TypeError | ValueError | AttributeError | ZeroDivisionError

datatype direction = DIR_TX | DIR_RX | DIR_TXRX_SHARED

datatype pkt_type =
    APP_TYPE_DATA | APP_TYPE_ACK | APP_TYPE_JOIN | APP_TYPE_FRAG
  | RPL_TYPE_DIO | RPL_TYPE_DAO | TSCH_TYPE_EB
  | IANA_6TOP_TYPE_REQUEST | IANA_6TOP_TYPE_RESPONSE | IANA_6TOP_TYPE_CONFIRMATION

datatype six_state =
    SIX_STATE_IDLE
  | SIX_STATE_SENDING_REQUEST
  | SIX_STATE_WAIT_ADDREQUEST_SENDDONE
  | SIX_STATE_WAIT_DELETEREQUEST_SENDDONE
  | SIX_STATE_WAIT_RELOCATEREQUEST_SENDDONE
  | SIX_STATE_WAIT_COUNTREQUEST_SENDDONE
  | SIX_STATE_WAIT_LISTREQUEST_SENDDONE
  | SIX_STATE_WAIT_CLEARREQUEST_SENDDONE
  | SIX_STATE_WAIT_ADDRESPONSE
  | SIX_STATE_WAIT_DELETERESPONSE
  | SIX_STATE_WAIT_RELOCATERESPONSE
  | SIX_STATE_WAIT_COUNTRESPONSE
  | SIX_STATE_WAIT_LISTRESPONSE
  | SIX_STATE_WAIT_CLEARRESPONSE
  | SIX_STATE_REQUEST_ADD_RECEIVED
  | SIX_STATE_WAIT_ADD_RESPONSE_SENDDONE
  | SIX_STATE_REQUEST_DELETE_RECEIVED
  | SIX_STATE_WAIT_DELETE_RESPONSE_SENDDONE

text \<open>The 6P commands and return codes are the integers of the source.\<close>

definition IANA_6TOP_CMD_ADD :: nat where [simp]: "IANA_6TOP_CMD_ADD = 1"
definition IANA_6TOP_CMD_DELETE :: nat where [simp]: "IANA_6TOP_CMD_DELETE = 2"

definition IANA_6TOP_RC_SUCCESS :: nat where [simp]: "IANA_6TOP_RC_SUCCESS = 0"
definition IANA_6TOP_RC_RESET :: nat where [simp]: "IANA_6TOP_RC_RESET = 3"
definition IANA_6TOP_RC_BUSY :: nat where [simp]: "IANA_6TOP_RC_BUSY = 7"
definition IANA_6TOP_RC_NORES :: nat where [simp]: "IANA_6TOP_RC_NORES = 8"

definition NUM_SUFFICIENT_TX :: nat where [simp]: "NUM_SUFFICIENT_TX = 10"
definition MSF_DEFAULT_SIXTOP_TIMEOUT :: int where [simp]: "MSF_DEFAULT_SIXTOP_TIMEOUT = 15"
definition MSF_6PTIMEOUT_SEC_FACTOR :: rat where [simp]: "MSF_6PTIMEOUT_SEC_FACTOR = 5"
definition MSF_MAX_OLD_PARENT_REMOVAL :: nat where [simp]: "MSF_MAX_OLD_PARENT_REMOVAL = 1"
definition TSCH_QUEUE_SIZE :: nat where [simp]: "TSCH_QUEUE_SIZE = 10"
definition TSCH_MAXTXRETRIES :: nat where [simp]: "TSCH_MAXTXRETRIES = 4"

text \<open>
  The \<open>neighbor\<close> of a cell is a mote, or the list of motes that
  \<open>_tsch_add_minimal_cell\<close> stores for a broadcast cell.
\<close>

datatype peer = Mote nat | Motes "nat list"

text \<open>The destination of a packet is a mote or \<open>BROADCAST_ADDRESS\<close> (0xffff).\<close>

datatype dst = DstMote nat | BROADCAST_ADDRESS

type_synonym cellspec = "nat \<times> nat \<times> direction"

text \<open>
  The payload of a 6P message is \<open>[cellList, numCells, dir, seq, ...]\<close>; the cell list
  holds \<open>(ts, ch, dir)\<close> triples in an ADD exchange and timeslots in a DELETE exchange.
\<close>

datatype cell_list = AddCells "cellspec list" | DelCells "nat list"

datatype payload =
    Payload6P cell_list nat direction nat
  | PayloadOther "int list"

record packet =
  asn :: nat
  ptype :: pkt_type
  code :: "nat option"
  payload :: payload
  retriesLeft :: nat
  srcIp :: nat
  dstIp :: dst
  sourceRoute :: "nat list list"
  nextHop :: "nat option list option"

record cell =
  ch :: nat
  dir :: direction
  neighbor :: peer
  numTx :: nat
  numTxAck :: nat
  numRx :: nat
  history :: "nat list"
  debug_canbeInterfered :: "nat list"
  parentTs :: "nat option"
  cell_modulation :: "string option"

text \<open>
  The timer of a transaction: its tag \<open>(self.id, '_sixtop_timer_fired_dest_<id>')\<close>, kept
  as the pair of the two identifiers, and the ASN it is scheduled for.
\<close>

record sixtop_timer =
  timer_tag :: "nat \<times> nat"
  timer_asn :: int

text \<open>
  One half-context of \<open>sixtopStates[n]\<close>. The keys \<open>state\<close>, \<open>blockedCells\<close> and
  \<open>seqNum\<close> are written together when the half is created; \<open>timeout\<close> and \<open>timer\<close>
  are keys that may be absent.
\<close>

record sixtop_half =
  state :: six_state
  blockedCells :: "cellspec list"
  seqNum :: nat
  timeout :: "int option"
  timer :: "sixtop_timer option"

record sixtop_neighbor =
  tx :: "sixtop_half option"
  rx :: "sixtop_half option"

record settings =
  sf :: string
  slotframeLength :: nat
  slotDuration :: rat
  minCellsMSF :: int
  backoffMinExp :: int
  backoffMaxExp :: int
  individualModulations :: int
  sixtopRemoveRandomCell :: bool
  convergeFirst :: bool
  modulationSlots :: "(string \<times> nat) list"

record mote =
  mote_id :: nat
  dagRoot :: bool
  dagRootAddress :: "nat option"
  preferredParent :: "nat option"
  oldPreferredParent :: "nat option"
  PDR :: "(nat \<times> rat) list"
  RSSI :: "(nat \<times> rat) list"
  modulation :: "(nat \<times> string) list"
  numCellsToNeighbors :: "(nat \<times> int) list"
  numCellsFromNeighbors :: "(nat \<times> int) list"
  sixtopStates :: "(nat \<times> sixtop_neighbor) list"
  txQueue :: "packet list"
  pktToSend :: "packet option"
  schedule :: "(nat \<times> cell) list"
  waitingFor :: "direction option"
  backoffBroadcast :: int
  backoffBroadcastExponent :: int
  backoffPerNeigh :: "(nat \<times> int) list"
  backoffExponentPerNeigh :: "(nat \<times> int) list"
  motestats :: "string \<Rightarrow> nat"
  timeCorrectedSlot :: "nat option"
  currentOldPrefParentRemoval :: nat
  oldPrefParentRemoval :: nat
  isConverged :: bool
  isConvergedASN :: "nat option"
  rplPrefParentChurnToAndASN :: "nat option \<times> nat option"
  rplPrefParentASNDiffs :: "int list"
  tsSixTopReqRecv :: "(nat \<times> nat) list"

section \<open>Statistics and getters\<close>

text \<open>
  \<open>_stats_incrementMoteStats\<close>: every name the embedded functions pass is a key that
  \<open>_stats_resetMoteStats\<close> creates, so the counters are a total function of the name.
\<close>

definition stats_incrementMoteStats :: "string \<Rightarrow> mote \<Rightarrow> mote" where
  "stats_incrementMoteStats name m =
     m\<lparr>motestats := (motestats m)(name := motestats m name + 1)\<rparr>"

text \<open>\<open>getTxCells()\<close> and \<open>getSharedCells()\<close> with no neighbor given.\<close>

definition getTxCells :: "mote \<Rightarrow> (nat \<times> nat \<times> peer) list" where
  "getTxCells m =
     map (\<lambda>(ts, c). (ts, ch c, neighbor c)) (filter (\<lambda>(ts, c). dir c = DIR_TX) (schedule m))"

definition getSharedCells :: "mote \<Rightarrow> (nat \<times> nat \<times> peer) list" where
  "getSharedCells m =
     map (\<lambda>(ts, c). (ts, ch c, neighbor c))
       (filter (\<lambda>(ts, c). dir c = DIR_TXRX_SHARED) (schedule m))"

text \<open>\<open>_myNeighbors\<close>: the keys of \<open>PDR\<close> whose value is positive.\<close>

definition myNeighbors :: "mote \<Rightarrow> nat list" where
  "myNeighbors m = map fst (filter (\<lambda>(n, p). p > 0) (PDR m))"

section \<open>RPL: next hop\<close>

text \<open>
  \<open>_rpl_addNextHop\<close> returns whether a next hop was found, and the packet with its
  \<open>nextHop\<close> written (and its source route popped, for a downward packet). A next hop
  is a list of motes; \<open>[self.preferredParent]\<close> is \<open>[None]\<close> on a mote without parent,
  which Python counts as a non-empty list.
\<close>

definition rpl_addNextHop :: "mote \<Rightarrow> packet \<Rightarrow> error + (bool \<times> packet)" where
  "rpl_addNextHop m p =
     (if dstIp p = DstMote (mote_id m) then Inl AssertionError
      else if \<not> (preferredParent m \<noteq> None \<or> dagRoot m) then Inr (False, p)
      else
        let (hop, p1) =
          (if dstIp p = BROADCAST_ADDRESS then (Some (map Some (myNeighbors m)), p)
           else if ptype p = IANA_6TOP_TYPE_REQUEST \<or> ptype p = IANA_6TOP_TYPE_RESPONSE
             then (case dstIp p of DstMote d \<Rightarrow> (Some [Some d], p) | BROADCAST_ADDRESS \<Rightarrow> (None, p))
           else if (case dstIp p of DstMote d \<Rightarrow> dagRootAddress m = Some d
                                  | BROADCAST_ADDRESS \<Rightarrow> False)
             then (Some [preferredParent m], p)
           else if sourceRoute p \<noteq> []
             then (let nextHopId = last (sourceRoute p);
                       p' = p\<lparr>sourceRoute := butlast (sourceRoute p)\<rparr>
                   in (case filter (\<lambda>nei. [nei] = nextHopId) (myNeighbors m) of
                         [] \<Rightarrow> (None, p')
                       | ns \<Rightarrow> (Some [Some (last ns)], p')))
           else if (case dstIp p of DstMote d \<Rightarrow> d \<in> set (myNeighbors m)
                                  | BROADCAST_ADDRESS \<Rightarrow> False)
             then (case dstIp p of DstMote d \<Rightarrow> (Some [Some d], p) | BROADCAST_ADDRESS \<Rightarrow> (None, p))
           else (None, p))
        in Inr (hop \<noteq> None \<and> hop \<noteq> Some [], p1\<lparr>nextHop := hop\<rparr>))"

section \<open>TSCH: backoff and queue\<close>

text \<open>
  \<open>_tsch_resetBroadcastBackoff\<close>: the exponent is the literal \<open>2 - 1\<close>; the line that
  reads \<open>settings.backoffMinExp\<close> is commented out in the source.
\<close>

definition tsch_resetBroadcastBackoff :: "mote \<Rightarrow> mote" where
  "tsch_resetBroadcastBackoff m =
     m\<lparr>backoffBroadcast := 0, backoffBroadcastExponent := 2 - 1\<rparr>"

definition tsch_resetBackoffPerNeigh :: "settings \<Rightarrow> nat \<Rightarrow> mote \<Rightarrow> mote" where
  "tsch_resetBackoffPerNeigh st neigh m =
     m\<lparr>backoffPerNeigh := AList.update neigh 0 (backoffPerNeigh m),
        backoffExponentPerNeigh :=
          AList.update neigh (backoffMinExp st - 1) (backoffExponentPerNeigh m)\<rparr>"

text \<open>The loop of \<open>_tsch_enqueue\<close> over the queue, looking for a packet of the same type.\<close>

fun queue_has_type :: "pkt_type \<Rightarrow> packet list \<Rightarrow> bool" where
  "queue_has_type t [] = False"
| "queue_has_type t (p # ps) = (if t = ptype p then True else queue_has_type t ps)"

text \<open>
  \<open>_tsch_enqueue\<close>: the returned boolean and the updated mote, or the assertion that
  aborts the simulation. The packet appended is the one \<open>_rpl_addNextHop\<close> has written
  its next hop into.
\<close>

definition tsch_enqueue :: "settings \<Rightarrow> mote \<Rightarrow> packet \<Rightarrow> error + (bool \<times> mote)" where
  "tsch_enqueue st m packet =
     (case rpl_addNextHop m packet of
        Inl e \<Rightarrow> Inl e
      | Inr (routed, p) \<Rightarrow>
          if \<not> routed then Inr (False, stats_incrementMoteStats ''droppedNoRoute'' m)
          else if getTxCells m = [] \<and> getSharedCells m = [] then
            (let m1 = stats_incrementMoteStats ''droppedNoTxCells'' m
             in if sf st \<noteq> ''ilp'' then Inl AssertionError else Inr (False, m1))
          else if length (txQueue m) \<ge> TSCH_QUEUE_SIZE then
            (if ptype p = APP_TYPE_JOIN \<or> ptype p = RPL_TYPE_DAO
                \<or> ptype p = IANA_6TOP_TYPE_REQUEST \<or> ptype p = IANA_6TOP_TYPE_RESPONSE
             then
               (if queue_has_type (ptype p) (txQueue m)
                then Inr (False, stats_incrementMoteStats ''droppedQueueFull'' m)
                else Inr (True, m\<lparr>txQueue := txQueue m @ [p]\<rparr>))
             else Inr (False, stats_incrementMoteStats ''droppedQueueFull'' m))
          else Inr (True, m\<lparr>txQueue := txQueue m @ [p]\<rparr>))"

section \<open>6top: the timeout callback\<close>

text \<open>
  \<open>_sixtop_timer_fired\<close> walks the keys of \<open>sixtopStates\<close>. \<open>timer_due\<close> is the
  condition of its \<open>if\<close>; \<open>abort_transaction\<close> the three statements under it.
\<close>

definition timer_due :: "nat \<Rightarrow> sixtop_neighbor \<Rightarrow> bool" where
  "timer_due now e =
     (case tx e of
        None \<Rightarrow> False
      | Some h \<Rightarrow> (case timer h of None \<Rightarrow> False | Some t \<Rightarrow> timer_asn t = int now))"

definition abort_transaction :: "sixtop_neighbor \<Rightarrow> sixtop_neighbor" where
  "abort_transaction e =
     (case tx e of
        None \<Rightarrow> e
      | Some h \<Rightarrow> e\<lparr>tx := Some (h\<lparr>state := SIX_STATE_IDLE, blockedCells := [], timer := None\<rparr>)\<rparr>)"

fun sixtop_timer_loop ::
  "nat \<Rightarrow> (nat \<times> sixtop_neighbor) list \<Rightarrow> bool \<Rightarrow> (nat \<times> sixtop_neighbor) list \<times> bool" where
  "sixtop_timer_loop now [] found = ([], found)"
| "sixtop_timer_loop now ((n, e) # rest) found =
     (if timer_due now e
      then (let (rest', found') = sixtop_timer_loop now rest True
            in ((n, abort_transaction e) # rest', found'))
      else (let (rest', found') = sixtop_timer_loop now rest found
            in ((n, e) # rest', found')))"

definition sixtop_timer_fired :: "nat \<Rightarrow> mote \<Rightarrow> error + mote" where
  "sixtop_timer_fired now m =
     (let (states, found) = sixtop_timer_loop now (sixtopStates m) False
      in if \<not> found then Inl AssertionError else Inr (m\<lparr>sixtopStates := states\<rparr>))"


section \<open>Wireless: PDR and ETX\<close>

text \<open>
  \<open>getPDR\<close> reads \<open>self.PDR[neighbor]\<close>: a missing key raises \<open>KeyError\<close>, and a list
  (the neighbor of a broadcast cell) cannot be a key at all.
\<close>

definition getPDR :: "mote \<Rightarrow> peer \<Rightarrow> error + rat" where
  "getPDR m n =
     (case n of
        Motes ns \<Rightarrow> Inl TypeError
      | Mote i \<Rightarrow> (case map_of (PDR m) i of None \<Rightarrow> Inl KeyError | Some p \<Rightarrow> Inr p))"

text \<open>
  \<open>getCellPDR\<close>: its assertion compares the neighbor with the object \<open>type(list)\<close> and
  never fails.
\<close>

definition getCellPDR :: "mote \<Rightarrow> cell \<Rightarrow> error + rat" where
  "getCellPDR m c =
     (if numTx c < NUM_SUFFICIENT_TX then getPDR m (neighbor c)
      else Inr (of_nat (numTxAck c) / of_nat (numTx c)))"

text \<open>The condition both \<open>_msf_get_sixtop_timeout\<close> and \<open>_estimateETX\<close> select cells with.\<close>

definition tx_or_shared_to :: "nat \<Rightarrow> cell \<Rightarrow> bool" where
  "tx_or_shared_to n c =
     ((neighbor c = Mote n \<and> dir c = DIR_TX) \<or> (dir c = DIR_TXRX_SHARED \<and> neighbor c = Mote n))"

text \<open>
  \<open>_estimateETX\<close>: the loop over the schedule adds the counters of the cells to the
  neighbor to the initial values \<open>numTx = NUM_SUFFICIENT_TX\<close> and
  \<open>numTxAck = floor(pdr * numTx)\<close>. The result is \<open>None\<close> when \<open>numTxAck\<close> is zero.
\<close>

fun estimateETX_loop :: "nat \<Rightarrow> (nat \<times> cell) list \<Rightarrow> rat \<times> rat \<Rightarrow> rat \<times> rat" where
  "estimateETX_loop n [] (tx_sum, ack_sum) = (tx_sum, ack_sum)"
| "estimateETX_loop n ((ts, c) # rest) (tx_sum, ack_sum) =
     (if tx_or_shared_to n c
      then estimateETX_loop n rest (tx_sum + of_nat (numTx c), ack_sum + of_nat (numTxAck c))
      else estimateETX_loop n rest (tx_sum, ack_sum))"

definition estimateETX :: "mote \<Rightarrow> nat \<Rightarrow> error + rat option" where
  "estimateETX m n =
     (case getPDR m (Mote n) of
        Inl e \<Rightarrow> Inl e
      | Inr pdr \<Rightarrow>
          let (tx_sum, ack_sum) =
                estimateETX_loop n (schedule m)
                  (of_nat NUM_SUFFICIENT_TX, of_int \<lfloor>pdr * of_nat NUM_SUFFICIENT_TX\<rfloor>)
          in if ack_sum = 0 then Inr None else Inr (Some (tx_sum / ack_sum)))"

text \<open>Python's \<open>int(x)\<close> on a float truncates towards zero.\<close>

definition py_int :: "rat \<Rightarrow> int" where
  "py_int x = (if 0 \<le> x then \<lfloor>x\<rfloor> else \<lceil>x\<rceil>)"



section \<open>MSF\<close>

text \<open>
  \<open>_msf_get_sixtop_timeout\<close>: the loop collects the PDR of every TX or SHARED cell to
  the neighbor; a lookup that raises ends it.
\<close>

fun timeout_cellPDR :: "mote \<Rightarrow> nat \<Rightarrow> (nat \<times> cell) list \<Rightarrow> error + rat list" where
  "timeout_cellPDR m n [] = Inr []"
| "timeout_cellPDR m n ((ts, c) # rest) =
     (if tx_or_shared_to n c
      then (case getCellPDR m c of
              Inl e \<Rightarrow> Inl e
            | Inr p \<Rightarrow> (case timeout_cellPDR m n rest of
                          Inl e \<Rightarrow> Inl e
                        | Inr ps \<Rightarrow> Inr (p # ps)))
      else timeout_cellPDR m n rest)"

definition msf_get_sixtop_timeout :: "settings \<Rightarrow> mote \<Rightarrow> nat \<Rightarrow> error + int" where
  "msf_get_sixtop_timeout st m n =
     (case timeout_cellPDR m n (schedule m) of
        Inl e \<Rightarrow> Inl e
      | Inr cellPDR \<Rightarrow>
          if length cellPDR > 0 then
            (let meanPDR = sum_list cellPDR / of_nat (length cellPDR)
             in if meanPDR < 1 / 100000 then Inr MSF_DEFAULT_SIXTOP_TIMEOUT
                else if \<not> meanPDR \<le> 1 then Inl AssertionError
                else Inr \<lceil>(of_nat (slotframeLength st) * slotDuration st
                             / of_nat (length cellPDR))
                           * (1 / meanPDR) * MSF_6PTIMEOUT_SEC_FACTOR\<rceil>)
          else Inr MSF_DEFAULT_SIXTOP_TIMEOUT)"

text \<open>
  \<open>d.get(key, default)\<close> on a dictionary keyed by motes; the key may be \<open>None\<close> (a mote
  without old preferred parent), which is never a key of the dictionary.
\<close>

definition dict_get :: "(nat \<times> 'v) list \<Rightarrow> nat option \<Rightarrow> 'v \<Rightarrow> 'v" where
  "dict_get d key dflt =
     (case key of
        None \<Rightarrow> dflt
      | Some k \<Rightarrow> (case map_of d k of None \<Rightarrow> dflt | Some v \<Rightarrow> v))"

text \<open>
  The 6top operation \<open>_msf_action_parent_change\<close> triggers, with the arguments of the
  call: \<open>_sixtop_cell_reservation_request(neighbor, numCells, dir, timeout)\<close> or
  \<open>_sixtop_removeCells(neighbor, numCellsToRemove, dir, timeout)\<close>.
\<close>

datatype sixtop_call =
    Cell_reservation_request nat int direction int
  | RemoveCells nat int direction int

text \<open>
  \<open>_msf_action_parent_change\<close> up to the 6top call it makes: the assertion on the
  preferred parent, the choice between the ADD to the new parent and the removal from the
  old one, and the arguments. The event it schedules afterwards and the final clearing of
  \<open>oldPreferredParent\<close> come after the call and are not part of this function.
\<close>

definition msf_action_parent_change :: "settings \<Rightarrow> mote \<Rightarrow> error + sixtop_call option" where
  "msf_action_parent_change st m =
     (case preferredParent m of
        None \<Rightarrow> Inl AssertionError
      | Some parent \<Rightarrow>
          if dict_get (numCellsToNeighbors m) (Some parent) 0 = 0 then
            (case msf_get_sixtop_timeout st m parent of
               Inl e \<Rightarrow> Inl e
             | Inr t \<Rightarrow>
                 Inr (Some (Cell_reservation_request parent
                       (dict_get (numCellsToNeighbors m) (oldPreferredParent m) (minCellsMSF st))
                       DIR_TXRX_SHARED t)))
          else if currentOldPrefParentRemoval m < MSF_MAX_OLD_PARENT_REMOVAL
                  \<and> dict_get (numCellsToNeighbors m) (oldPreferredParent m) 0 > 0
                  \<and> dict_get (numCellsToNeighbors m) (Some parent) 0 > 0 then
            (case oldPreferredParent m of
               None \<Rightarrow> Inr None
             | Some old \<Rightarrow>
                 (case msf_get_sixtop_timeout st m old of
                    Inl e \<Rightarrow> Inl e
                  | Inr t \<Rightarrow>
                      Inr (Some (RemoveCells old
                            (dict_get (numCellsToNeighbors m) (Some old) 0)
                            DIR_TXRX_SHARED t))))
          else Inr None)"

section \<open>TSCH: adding and removing cells\<close>

text \<open>\<open>d[k]\<close> on a dictionary: a missing key raises \<open>KeyError\<close>.\<close>

definition lookup :: "('k \<times> 'v) list \<Rightarrow> 'k \<Rightarrow> error + 'v" where
  "lookup d k = (case map_of d k of None \<Rightarrow> Inl KeyError | Some v \<Rightarrow> Inr v)"

text \<open>
  \<open>_tsch_addCells(neighbor, cellList, parentTs, modulation)\<close>: every cell is asserted to
  be on a free timeslot and stored with fresh counters.
\<close>

fun tsch_addCells ::
  "peer \<Rightarrow> cellspec list \<Rightarrow> nat option \<Rightarrow> string option \<Rightarrow> (nat \<times> cell) list
     \<Rightarrow> error + (nat \<times> cell) list" where
  "tsch_addCells nb [] pts mcs sch = Inr sch"
| "tsch_addCells nb ((ts, chn, d) # rest) pts mcs sch =
     (if ts \<in> fst ` set sch then Inl AssertionError
      else tsch_addCells nb rest pts mcs
             (AList.update ts
                \<lparr>ch = chn, dir = d, neighbor = nb, numTx = 0, numTxAck = 0, numRx = 0,
                 history = [], debug_canbeInterfered = [], parentTs = pts,
                 cell_modulation = mcs\<rparr> sch))"

text \<open>
  \<open>_tsch_removeCells(neighbor, tsList)\<close>: every timeslot is asserted to hold a cell with
  that neighbor.
\<close>

fun tsch_removeCells :: "peer \<Rightarrow> nat list \<Rightarrow> (nat \<times> cell) list \<Rightarrow> error + (nat \<times> cell) list" where
  "tsch_removeCells nb [] sch = Inr sch"
| "tsch_removeCells nb (ts # rest) sch =
     (case map_of sch ts of
        None \<Rightarrow> Inl AssertionError
      | Some c \<Rightarrow>
          if neighbor c \<noteq> nb then Inl AssertionError
          else tsch_removeCells nb rest (AList.delete ts sch))"

text \<open>
  The cells a 6P exchange installs or removes for one negotiated timeslot list. With
  \<open>individualModulations == 1\<close> every timeslot stands for the
  \<open>modulationSlots[modulation[neighbor]]\<close> consecutive slots of one bonded cell.
\<close>

definition neighbor_slots :: "settings \<Rightarrow> mote \<Rightarrow> nat \<Rightarrow> error + (string \<times> nat)" where
  "neighbor_slots st m n =
     (case lookup (modulation m) n of
        Inl e \<Rightarrow> Inl e
      | Inr mcs \<Rightarrow> (case lookup (modulationSlots st) mcs of
                      Inl e \<Rightarrow> Inl e
                    | Inr k \<Rightarrow> Inr (mcs, k)))"

definition bonded_slots :: "nat \<Rightarrow> nat list \<Rightarrow> nat list" where
  "bonded_slots k tss = concat (map (\<lambda>ts. map (\<lambda>i. ts + i) [0..<k]) tss)"

text \<open>
  \<open>install_cells\<close>: the \<open>if self.settings.individualModulations == 1: ... else: ...\<close>
  block that ends in \<open>_tsch_addCells\<close>; \<open>keep_dir\<close> tells whether each cell keeps the
  direction of its own triple (in \<open>_sixtop_receive_RESPONSE_ACK\<close>) or takes \<open>d\<close>.
\<close>

definition install_cells ::
  "settings \<Rightarrow> nat \<Rightarrow> cellspec list \<Rightarrow> direction \<Rightarrow> bool \<Rightarrow> mote \<Rightarrow> error + mote" where
  "install_cells st n cells d keep_dir m =
     (if individualModulations st = 1 then
        (if cells = [] then
           (case lookup (modulation m) n of
              Inl e \<Rightarrow> Inl e
            | Inr mcs \<Rightarrow> Inr m)
         else
           (case neighbor_slots st m n of
              Inl e \<Rightarrow> Inl e
            | Inr (mcs, k) \<Rightarrow>
                (case tsch_addCells (Mote n)
                        (concat (map (\<lambda>(ts, chn, cd).
                                   map (\<lambda>i. (ts + i, chn, if keep_dir then cd else d)) [0..<k])
                                 cells))
                        (Some (fst (hd cells))) (Some mcs) (schedule m) of
                   Inl e \<Rightarrow> Inl e
                 | Inr sch \<Rightarrow> Inr (m\<lparr>schedule := sch\<rparr>))))
      else
        (case tsch_addCells (Mote n)
                (map (\<lambda>(ts, chn, cd). (ts, chn, if keep_dir then cd else d)) cells)
                None None (schedule m) of
           Inl e \<Rightarrow> Inl e
         | Inr sch \<Rightarrow> Inr (m\<lparr>schedule := sch\<rparr>)))"

definition uninstall_cells :: "settings \<Rightarrow> nat \<Rightarrow> nat list \<Rightarrow> mote \<Rightarrow> error + mote" where
  "uninstall_cells st n tss m =
     (if individualModulations st = 1 then
        (if tss = [] then
           (case tsch_removeCells (Mote n) [] (schedule m) of
              Inl e \<Rightarrow> Inl e
            | Inr sch \<Rightarrow> Inr (m\<lparr>schedule := sch\<rparr>))
         else
           (case neighbor_slots st m n of
              Inl e \<Rightarrow> Inl e
            | Inr (mcs, k) \<Rightarrow>
                (case tsch_removeCells (Mote n) (bonded_slots k tss) (schedule m) of
                   Inl e \<Rightarrow> Inl e
                 | Inr sch \<Rightarrow> Inr (m\<lparr>schedule := sch\<rparr>))))
      else
        (case tsch_removeCells (Mote n) tss (schedule m) of
           Inl e \<Rightarrow> Inl e
         | Inr sch \<Rightarrow> Inr (m\<lparr>schedule := sch\<rparr>)))"

text \<open>
  The counters of cells per neighbor: \<open>if n not in d: d[n] = 0\<close> followed by
  \<open>d[n] += k\<close>, and \<open>d[n] -= k\<close> followed by \<open>assert d[n] >= 0\<close>.
\<close>

definition counter_add :: "nat \<Rightarrow> int \<Rightarrow> (nat \<times> int) list \<Rightarrow> (nat \<times> int) list" where
  "counter_add n k d = AList.update n (dict_get d (Some n) 0 + k) d"

definition counter_sub :: "nat \<Rightarrow> int \<Rightarrow> (nat \<times> int) list \<Rightarrow> error + (nat \<times> int) list" where
  "counter_sub n k d =
     (case map_of d n of
        None \<Rightarrow> Inl KeyError
      | Some v \<Rightarrow> if \<not> v - k \<ge> 0 then Inl AssertionError else Inr (AList.update n (v - k) d))"

definition count_added :: "direction \<Rightarrow> nat \<Rightarrow> int \<Rightarrow> mote \<Rightarrow> mote" where
  "count_added d n k m =
     (if d = DIR_TX then m\<lparr>numCellsToNeighbors := counter_add n k (numCellsToNeighbors m)\<rparr>
      else if d = DIR_RX
        then m\<lparr>numCellsFromNeighbors := counter_add n k (numCellsFromNeighbors m)\<rparr>
      else m\<lparr>numCellsToNeighbors := counter_add n k (numCellsToNeighbors m),
             numCellsFromNeighbors := counter_add n k (numCellsFromNeighbors m)\<rparr>)"

definition count_removed :: "direction \<Rightarrow> nat \<Rightarrow> int \<Rightarrow> mote \<Rightarrow> error + mote" where
  "count_removed d n k m =
     (if d = DIR_TX then
        (case counter_sub n k (numCellsToNeighbors m) of
           Inl e \<Rightarrow> Inl e
         | Inr to \<Rightarrow> Inr (m\<lparr>numCellsToNeighbors := to\<rparr>))
      else if d = DIR_RX then
        (case counter_sub n k (numCellsFromNeighbors m) of
           Inl e \<Rightarrow> Inl e
         | Inr from \<Rightarrow> Inr (m\<lparr>numCellsFromNeighbors := from\<rparr>))
      else
        (case counter_sub n k (numCellsToNeighbors m) of
           Inl e \<Rightarrow> Inl e
         | Inr to \<Rightarrow>
             (case counter_sub n k (numCellsFromNeighbors m) of
                Inl e \<Rightarrow> Inl e
              | Inr from \<Rightarrow>
                  Inr (m\<lparr>numCellsToNeighbors := to, numCellsFromNeighbors := from\<rparr>))))"

section \<open>6top: receiving a response\<close>

text \<open>The direction seen from the other side of the link.\<close>

definition mirror_dir :: "direction \<Rightarrow> direction" where
  "mirror_dir d =
     (if d = DIR_TX then DIR_RX else if d = DIR_RX then DIR_TX else DIR_TXRX_SHARED)"

text \<open>The two statements \<open>state = SIX_STATE_IDLE; blockedCells = []\<close>.\<close>

definition go_idle :: "sixtop_half \<Rightarrow> sixtop_half" where
  "go_idle h = h\<lparr>state := SIX_STATE_IDLE, blockedCells := []\<rparr>"

text \<open>
  An update of \<open>sixtopStates[n]['tx']\<close> or \<open>sixtopStates[n]['rx']\<close>; either key may be
  missing.
\<close>

definition update_tx :: "nat \<Rightarrow> (sixtop_half \<Rightarrow> sixtop_half) \<Rightarrow> mote \<Rightarrow> error + mote" where
  "update_tx n f m =
     (case map_of (sixtopStates m) n of
        None \<Rightarrow> Inl KeyError
      | Some e \<Rightarrow>
          (case tx e of
             None \<Rightarrow> Inl KeyError
           | Some h \<Rightarrow>
               Inr (m\<lparr>sixtopStates := AList.update n (e\<lparr>tx := Some (f h)\<rparr>) (sixtopStates m)\<rparr>)))"

definition update_rx :: "nat \<Rightarrow> (sixtop_half \<Rightarrow> sixtop_half) \<Rightarrow> mote \<Rightarrow> error + mote" where
  "update_rx n f m =
     (case map_of (sixtopStates m) n of
        None \<Rightarrow> Inl KeyError
      | Some e \<Rightarrow>
          (case rx e of
             None \<Rightarrow> Inl KeyError
           | Some h \<Rightarrow>
               Inr (m\<lparr>sixtopStates := AList.update n (e\<lparr>rx := Some (f h)\<rparr>) (sixtopStates m)\<rparr>)))"

text \<open>
  The bookkeeping of the time between a parent churn and the first cell to the new
  parent, in the success branch of an ADD response.
\<close>

definition note_churn_delay :: "nat \<Rightarrow> nat \<Rightarrow> mote \<Rightarrow> error + mote" where
  "note_churn_delay now n m =
     (if preferredParent m = Some n \<and> oldPreferredParent m \<noteq> Some n
         \<and> dict_get (numCellsToNeighbors m) (preferredParent m) 0 = 0
      then
        (case rplPrefParentChurnToAndASN m of
           (None, a) \<Rightarrow> Inr m
         | (Some to, a) \<Rightarrow>
             if to \<noteq> n then Inl AssertionError
             else (case a of
                     None \<Rightarrow> Inl TypeError
                   | Some churn_asn \<Rightarrow>
                       Inr (m\<lparr>rplPrefParentASNDiffs :=
                                rplPrefParentASNDiffs m @ [int now - int churn_asn],
                              rplPrefParentChurnToAndASN := (None, None)\<rparr>)))
      else Inr m)"

text \<open>
  The test for convergence in the same branch; what it then asks of the engine (the end
  of the simulation, the start of the traffic) is not part of the mote.
\<close>

definition note_convergence :: "settings \<Rightarrow> nat \<Rightarrow> nat \<Rightarrow> nat \<Rightarrow> direction \<Rightarrow> mote \<Rightarrow> mote" where
  "note_convergence st now n num_received newDir m =
     (if convergeFirst st \<and> \<not> isConverged m \<and> num_received > 0 \<and> preferredParent m = Some n
         \<and> (newDir = DIR_TX \<or> newDir = DIR_TXRX_SHARED)
      then m\<lparr>isConverged := True, isConvergedASN := Some now\<rparr>
      else m)"

text \<open>
  \<open>_sixtop_receive_RESPONSE(type, code, smac, payload)\<close> at ASN \<open>now\<close>. The tx
  half-context of the sender decides between the branch of an ADD response, the branch
  of a DELETE response and doing nothing. The result is Python's \<open>True\<close>, \<open>False\<close> or
  \<open>None\<close> with the updated mote. \<open>after_response\<close> is the part both branches share once
  the sequence number and the timer have been checked: the timer is deleted and the
  sequence number advanced. A cell list of the wrong kind for the branch (timeslots in
  an ADD response, triples in a DELETE response) is a type error of the Python.
\<close>

definition after_response :: "nat \<Rightarrow> mote \<Rightarrow> error + mote" where
  "after_response n m = update_tx n (\<lambda>h. h\<lparr>timer := None, seqNum := seqNum h + 1\<rparr>) m"

definition receive_ADD_RESPONSE ::
  "settings \<Rightarrow> nat \<Rightarrow> nat \<Rightarrow> nat \<Rightarrow> payload \<Rightarrow> sixtop_half \<Rightarrow> mote
     \<Rightarrow> error + (bool option \<times> mote)" where
  "receive_ADD_RESPONSE st now rc n pl h m =
     (if \<not> (rc = IANA_6TOP_RC_SUCCESS \<or> rc = IANA_6TOP_RC_NORES \<or> rc = IANA_6TOP_RC_RESET)
      then Inl AssertionError
      else
        let m1 = stats_incrementMoteStats ''6topRxAddResp'' m in
        (case pl of
           PayloadOther xs \<Rightarrow> Inl TypeError
         | Payload6P receivedCellList numCells receivedDir seq \<Rightarrow>
             if seq \<noteq> seqNum h then
               (case update_tx n go_idle m1 of
                  Inl e \<Rightarrow> Inl e
                | Inr m2 \<Rightarrow> Inr (Some False, m2))
             else
               (case timer h of
                  None \<Rightarrow> Inl KeyError
                | Some t \<Rightarrow>
                    if timer_asn t = int now then
                      (case update_tx n go_idle m1 of
                         Inl e \<Rightarrow> Inl e
                       | Inr m2 \<Rightarrow> Inr (Some False, m2))
                    else
                      (case after_response n m1 of
                         Inl e \<Rightarrow> Inl e
                       | Inr m2 \<Rightarrow>
                           if rc = IANA_6TOP_RC_SUCCESS then
                             (case receivedCellList of
                                DelCells tss \<Rightarrow> Inl TypeError
                              | AddCells cells \<Rightarrow>
                                  (case note_churn_delay now n m2 of
                                     Inl e \<Rightarrow> Inl e
                                   | Inr m3 \<Rightarrow>
                                       (case install_cells st n cells (mirror_dir receivedDir)
                                               False m3 of
                                          Inl e \<Rightarrow> Inl e
                                        | Inr m4 \<Rightarrow>
                                            (case update_tx n go_idle
                                                    (count_added (mirror_dir receivedDir) n
                                                       (int (length cells))
                                                       (note_convergence st now n (length cells)
                                                          (mirror_dir receivedDir) m4)) of
                                               Inl e \<Rightarrow> Inl e
                                             | Inr m5 \<Rightarrow> Inr (Some True, m5)))))
                           else if rc = IANA_6TOP_RC_NORES \<or> rc = IANA_6TOP_RC_BUSY
                                   \<or> rc = IANA_6TOP_RC_RESET then
                             (case update_tx n go_idle m2 of
                                Inl e \<Rightarrow> Inl e
                              | Inr m3 \<Rightarrow> Inr (Some True, m3))
                           else Inl AssertionError))))"

definition receive_DELETE_RESPONSE ::
  "settings \<Rightarrow> nat \<Rightarrow> nat \<Rightarrow> nat \<Rightarrow> payload \<Rightarrow> sixtop_half \<Rightarrow> mote
     \<Rightarrow> error + (bool option \<times> mote)" where
  "receive_DELETE_RESPONSE st now rc n pl h m =
     (if \<not> (rc = IANA_6TOP_RC_SUCCESS \<or> rc = IANA_6TOP_RC_NORES \<or> rc = IANA_6TOP_RC_RESET)
      then Inl AssertionError
      else
        let m1 = stats_incrementMoteStats ''6topRxDelResp'' m in
        (case pl of
           PayloadOther xs \<Rightarrow> Inl TypeError
         | Payload6P receivedCellList numCells receivedDir seq \<Rightarrow>
             if seq \<noteq> seqNum h then
               (case update_tx n go_idle m1 of
                  Inl e \<Rightarrow> Inl e
                | Inr m2 \<Rightarrow> Inr (Some False, m2))
             else
               (case timer h of
                  None \<Rightarrow> Inl KeyError
                | Some t \<Rightarrow>
                    if timer_asn t = int now then
                      (case update_tx n go_idle m1 of
                         Inl e \<Rightarrow> Inl e
                       | Inr m2 \<Rightarrow> Inr (Some False, m2))
                    else
                      (case after_response n m1 of
                         Inl e \<Rightarrow> Inl e
                       | Inr m2 \<Rightarrow>
                           if rc = IANA_6TOP_RC_SUCCESS then
                             (case receivedCellList of
                                AddCells cells \<Rightarrow>
                                  if length cells \<noteq> 1 then Inl AssertionError else Inl TypeError
                              | DelCells tss \<Rightarrow>
                                  if length tss \<noteq> 1 then Inl AssertionError
                                  else
                                    (case uninstall_cells st n tss m2 of
                                       Inl e \<Rightarrow> Inl e
                                     | Inr m3 \<Rightarrow>
                                         (case count_removed (mirror_dir receivedDir) n
                                                 (int (length tss)) m3 of
                                            Inl e \<Rightarrow> Inl e
                                          | Inr m4 \<Rightarrow>
                                              (case update_tx n go_idle m4 of
                                                 Inl e \<Rightarrow> Inl e
                                               | Inr m5 \<Rightarrow> Inr (Some True, m5)))))
                           else if rc = IANA_6TOP_RC_NORES \<or> rc = IANA_6TOP_RC_BUSY
                                   \<or> rc = IANA_6TOP_RC_RESET then
                             (case update_tx n go_idle m2 of
                                Inl e \<Rightarrow> Inl e
                              | Inr m3 \<Rightarrow> Inr (Some True, m3))
                           else Inl AssertionError))))"

definition sixtop_receive_RESPONSE ::
  "settings \<Rightarrow> nat \<Rightarrow> nat \<Rightarrow> nat \<Rightarrow> payload \<Rightarrow> mote \<Rightarrow> error + (bool option \<times> mote)" where
  "sixtop_receive_RESPONSE st now rc smac pl m =
     (case map_of (sixtopStates m) smac of
        None \<Rightarrow> Inl KeyError
      | Some e \<Rightarrow>
          (case tx e of
             None \<Rightarrow> Inl KeyError
           | Some h \<Rightarrow>
               if state h = SIX_STATE_WAIT_ADDRESPONSE
                 then receive_ADD_RESPONSE st now rc smac pl h m
               else if state h = SIX_STATE_WAIT_DELETERESPONSE
                 then receive_DELETE_RESPONSE st now rc smac pl h m
               else Inr (None, m)))"

section \<open>6top: the ACK of a response\<close>

text \<open>
  \<open>_sixtop_receive_RESPONSE_ACK(packet)\<close> at ASN \<open>now\<close>: the responder installs or
  removes the cells of the response it sent, once the response is acknowledged.
  \<open>confirm_cells\<close> is what its two branches do under \<open>if code == IANA_6TOP_RC_SUCCESS\<close>,
  for the cells of an ADD (\<open>adding\<close>) or of a DELETE.
\<close>

definition confirm_cells ::
  "settings \<Rightarrow> nat \<Rightarrow> bool \<Rightarrow> cell_list \<Rightarrow> direction \<Rightarrow> mote \<Rightarrow> error + mote" where
  "confirm_cells st n adding confirmedCellList receivedDir m =
     (if adding then
        (case confirmedCellList of
           DelCells tss \<Rightarrow> Inl TypeError
         | AddCells cells \<Rightarrow>
             if individualModulations st = 1 \<and> length cells \<noteq> 1 then Inl AssertionError
             else
               (case install_cells st n cells receivedDir True m of
                  Inl e \<Rightarrow> Inl e
                | Inr m2 \<Rightarrow> Inr (count_added receivedDir n (int (length cells)) m2)))
      else
        (case confirmedCellList of
           AddCells cells \<Rightarrow> Inl TypeError
         | DelCells tss \<Rightarrow>
             if individualModulations st = 1 \<and> length tss \<noteq> 1 then Inl AssertionError
             else
               (case uninstall_cells st n tss m of
                  Inl e \<Rightarrow> Inl e
                | Inr m2 \<Rightarrow> count_removed receivedDir n (int (length tss)) m2)))"

definition sixtop_receive_RESPONSE_ACK :: "settings \<Rightarrow> nat \<Rightarrow> packet \<Rightarrow> mote \<Rightarrow> error + mote" where
  "sixtop_receive_RESPONSE_ACK st now pkt m =
     (case dstIp pkt of
        BROADCAST_ADDRESS \<Rightarrow> Inl AttributeError
      | DstMote n \<Rightarrow>
          (case map_of (sixtopStates m) n of
             None \<Rightarrow> Inl KeyError
           | Some e \<Rightarrow>
               (case rx e of
                  None \<Rightarrow> Inl KeyError
                | Some h \<Rightarrow>
                    if state h = SIX_STATE_WAIT_ADD_RESPONSE_SENDDONE
                         \<or> state h = SIX_STATE_WAIT_DELETE_RESPONSE_SENDDONE then
                      (case payload pkt of
                         PayloadOther xs \<Rightarrow> Inl TypeError
                       | Payload6P confirmedCellList numCells receivedDir seq \<Rightarrow>
                           (case lookup (tsSixTopReqRecv m) n of
                              Inl e \<Rightarrow> Inl e
                            | Inr received \<Rightarrow>
                                (case
                                   (if code pkt = Some IANA_6TOP_RC_SUCCESS
                                    then confirm_cells st n
                                           (state h = SIX_STATE_WAIT_ADD_RESPONSE_SENDDONE)
                                           confirmedCellList receivedDir
                                           (m\<lparr>tsSixTopReqRecv :=
                                                AList.update n 0 (tsSixTopReqRecv m)\<rparr>)
                                    else Inr (m\<lparr>tsSixTopReqRecv :=
                                                 AList.update n 0 (tsSixTopReqRecv m)\<rparr>))
                                 of
                                   Inl e \<Rightarrow> Inl e
                                 | Inr m3 \<Rightarrow>
                                     update_rx n (\<lambda>h. (go_idle h)\<lparr>seqNum := seqNum h + 1\<rparr>) m3)))
                    else Inl AssertionError)))"

section \<open>Radio: the end of a transmission\<close>

definition isBroadcast :: "peer \<Rightarrow> bool" where
  "isBroadcast n = (case n of Motes ns \<Rightarrow> True | Mote i \<Rightarrow> False)"

text \<open>An update of the cell \<open>self.schedule[ts]\<close>, which \<open>radio_txDone\<close> has asserted to exist.\<close>

definition update_cell :: "nat \<Rightarrow> (cell \<Rightarrow> cell) \<Rightarrow> mote \<Rightarrow> mote" where
  "update_cell ts f m = m\<lparr>schedule := AList.map_entry ts f (schedule m)\<rparr>"

text \<open>\<open>list.index(x)\<close>: the position of the first element equal to \<open>x\<close>.\<close>

fun py_index :: "'a \<Rightarrow> 'a list \<Rightarrow> nat" where
  "py_index x [] = 0"
| "py_index x (y # ys) = (if x = y then 0 else Suc (py_index x ys))"

text \<open>
  The time correction: \<open>if self.schedule[ts]['neighbor'] == self.preferredParent\<close>.
\<close>

definition time_correction :: "nat \<Rightarrow> cell \<Rightarrow> mote \<Rightarrow> mote" where
  "time_correction now c m =
     (if (case neighbor c of
            Mote n \<Rightarrow> preferredParent m = Some n
          | Motes ns \<Rightarrow> False)
      then m\<lparr>timeCorrectedSlot := Some now\<rparr> else m)"

text \<open>
  The debug message of the NACK branch for a DATA or a 6P response packet reads
  \<open>self.backoffPerNeigh[self.schedule[ts]['neighbor']]\<close>.
\<close>

definition log_backoff :: "packet \<Rightarrow> cell \<Rightarrow> mote \<Rightarrow> error + unit" where
  "log_backoff pkt c m =
     (if ptype pkt = APP_TYPE_DATA \<or> ptype pkt = IANA_6TOP_TYPE_RESPONSE then
        (case neighbor c of
           Motes ns \<Rightarrow> Inl TypeError
         | Mote n \<Rightarrow> (case lookup (backoffPerNeigh m) n of Inl e \<Rightarrow> Inl e | Inr b \<Rightarrow> Inr ()))
      else Inr ())"

text \<open>
  The block that the NACK branch and the branch without ACK share: the retry counter of
  the packet is decremented, and a packet with no retry left is dropped, the 6top
  transaction it belongs to going back to IDLE. \<open>pktToSend\<close> is the packet object that
  the active-cell dispatch picked from the queue, the first one equal to it there, so the
  decrement shows in both.
\<close>

definition retry_or_drop :: "packet \<Rightarrow> mote \<Rightarrow> error + mote" where
  "retry_or_drop pkt m =
     (if pkt \<notin> set (txQueue m) then Inl ValueError
      else
        let i = py_index pkt (txQueue m);
            pkt1 = (if retriesLeft pkt > 0 then pkt\<lparr>retriesLeft := retriesLeft pkt - 1\<rparr> else pkt);
            m1 = m\<lparr>txQueue := (txQueue m)[i := pkt1], pktToSend := Some pkt1\<rparr>
        in if retriesLeft pkt1 = 0 then
             (let m2 = (if ptype pkt1 = APP_TYPE_DATA
                        then stats_incrementMoteStats ''droppedDataMacRetries'' m1 else m1);
                  m3 = stats_incrementMoteStats ''droppedMacRetries'' m2;
                  m4 = m3\<lparr>txQueue := remove1 pkt1 (txQueue m3)\<rparr>
              in if ptype pkt1 = IANA_6TOP_TYPE_REQUEST then
                   (case dstIp pkt1 of
                      BROADCAST_ADDRESS \<Rightarrow> Inl AttributeError
                    | DstMote d \<Rightarrow> update_tx d go_idle m4)
                 else if ptype pkt1 = IANA_6TOP_TYPE_RESPONSE then
                   (case dstIp pkt1 of
                      BROADCAST_ADDRESS \<Rightarrow> Inl AttributeError
                    | DstMote d \<Rightarrow> update_rx d go_idle m4)
                 else Inr m4)
           else Inr m1)"

text \<open>
  The reset of the backoff at the end of the ACK and of the NACK branch, for a cell of
  direction \<open>d\<close> with neighbor \<open>nb\<close>.
\<close>

definition reset_backoff :: "settings \<Rightarrow> direction \<Rightarrow> peer \<Rightarrow> mote \<Rightarrow> mote" where
  "reset_backoff st d nb m =
     (if d = DIR_TXRX_SHARED \<or> (d = DIR_TX \<and> txQueue m = []) then
        (if d = DIR_TXRX_SHARED \<and> \<not> isBroadcast nb then
           (case nb of
              Mote n \<Rightarrow> tsch_resetBackoffPerNeigh st n m
            | Motes ns \<Rightarrow> m)
         else tsch_resetBroadcastBackoff m)
      else m)"

text \<open>
  The ACK of a 6P request: the transaction waits for the response, and its timer is set
  to \<open>int(asn + timeout / slotDuration)\<close>.
\<close>

definition arm_timer ::
  "settings \<Rightarrow> nat \<Rightarrow> nat \<Rightarrow> six_state \<Rightarrow> six_state \<Rightarrow> mote \<Rightarrow> error + mote" where
  "arm_timer st now d expected next m =
     (case map_of (sixtopStates m) d of
        None \<Rightarrow> Inl KeyError
      | Some e \<Rightarrow>
          (case tx e of
             None \<Rightarrow> Inl KeyError
           | Some h \<Rightarrow>
               if state h \<noteq> expected then Inl AssertionError
               else
                 (case timeout h of
                    None \<Rightarrow> Inl KeyError
                  | Some t \<Rightarrow>
                      if slotDuration st = 0 then Inl ZeroDivisionError
                      else
                        update_tx d
                          (\<lambda>h. h\<lparr>state := next,
                                  timer := Some \<lparr>timer_tag = (mote_id m, d),
                                                 timer_asn = py_int (of_nat now
                                                   + of_int t / slotDuration st)\<rparr>\<rparr>) m)))"

definition ack_request :: "settings \<Rightarrow> nat \<Rightarrow> packet \<Rightarrow> mote \<Rightarrow> error + mote" where
  "ack_request st now pkt m =
     (if ptype pkt = IANA_6TOP_TYPE_REQUEST then
        (if code pkt = Some IANA_6TOP_CMD_ADD then
           (case dstIp pkt of
              BROADCAST_ADDRESS \<Rightarrow> Inl AttributeError
            | DstMote d \<Rightarrow>
                arm_timer st now d SIX_STATE_WAIT_ADDREQUEST_SENDDONE
                  SIX_STATE_WAIT_ADDRESPONSE m)
         else if code pkt = Some IANA_6TOP_CMD_DELETE then
           (case dstIp pkt of
              BROADCAST_ADDRESS \<Rightarrow> Inl AttributeError
            | DstMote d \<Rightarrow>
                arm_timer st now d SIX_STATE_WAIT_DELETEREQUEST_SENDDONE
                  SIX_STATE_WAIT_DELETERESPONSE m)
         else Inl AssertionError)
      else Inr m)"

text \<open>The four branches of \<open>radio_txDone\<close>, for the cell \<open>c\<close> at timeslot \<open>ts\<close>.\<close>

definition txDone_acked :: "settings \<Rightarrow> nat \<Rightarrow> nat \<Rightarrow> cell \<Rightarrow> packet \<Rightarrow> mote \<Rightarrow> error + mote" where
  "txDone_acked st now ts c pkt m =
     (let m1 = update_cell ts (\<lambda>c. c\<lparr>numTxAck := numTxAck c + 1\<rparr>) m;
          m2 = update_cell ts (\<lambda>c. c\<lparr>history := history c @ [1]\<rparr>) m1;
          m3 = time_correction now c m2
      in case ack_request st now pkt m3 of
           Inl e \<Rightarrow> Inl e
         | Inr m4 \<Rightarrow>
             (case (if ptype pkt = IANA_6TOP_TYPE_RESPONSE
                    then sixtop_receive_RESPONSE_ACK st now pkt m4 else Inr m4) of
                Inl e \<Rightarrow> Inl e
              | Inr m5 \<Rightarrow>
                  if pkt \<notin> set (txQueue m5) then Inl ValueError
                  else Inr (reset_backoff st (dir c) (neighbor c)
                              (m5\<lparr>txQueue := remove1 pkt (txQueue m5)\<rparr>))))"

definition txDone_nacked :: "settings \<Rightarrow> nat \<Rightarrow> nat \<Rightarrow> cell \<Rightarrow> packet \<Rightarrow> mote \<Rightarrow> error + mote" where
  "txDone_nacked st now ts c pkt m =
     (let m1 = update_cell ts (\<lambda>c. c\<lparr>numTxAck := numTxAck c + 1\<rparr>) m;
          m2 = update_cell ts (\<lambda>c. c\<lparr>history := history c @ [1]\<rparr>) m1;
          m3 = time_correction now c m2
      in case log_backoff pkt c m3 of
           Inl e \<Rightarrow> Inl e
         | Inr u \<Rightarrow>
             (case retry_or_drop pkt m3 of
                Inl e \<Rightarrow> Inl e
              | Inr m4 \<Rightarrow> Inr (reset_backoff st (dir c) (neighbor c) m4)))"

definition txDone_broadcast :: "packet \<Rightarrow> mote \<Rightarrow> error + mote" where
  "txDone_broadcast pkt m =
     (if pkt \<notin> set (txQueue m) then Inl ValueError
      else Inr (tsch_resetBroadcastBackoff (m\<lparr>txQueue := remove1 pkt (txQueue m)\<rparr>)))"

text \<open>
  Without ACK or NACK the backoff exponent of a SHARED cell grows (up to the literal 4
  for the broadcast cells, up to \<open>backoffMaxExp\<close> for a neighbor) and a new backoff is
  drawn: \<open>randint lo hi\<close> stands for the draw \<open>genEBDIO.randint(lo, hi)\<close>. The
  exponents are not negative.
\<close>

definition increase_backoff :: "settings \<Rightarrow> (int \<Rightarrow> int \<Rightarrow> int) \<Rightarrow> cell \<Rightarrow> mote \<Rightarrow> error + mote" where
  "increase_backoff st randint c m =
     (if dir c = DIR_TXRX_SHARED then
        (case neighbor c of
           Motes ns \<Rightarrow>
             (let e = (if backoffBroadcastExponent m < 4 then backoffBroadcastExponent m + 1
                       else backoffBroadcastExponent m)
              in Inr (m\<lparr>backoffBroadcastExponent := e,
                        backoffBroadcast := randint 0 (2 ^ nat e - 1)\<rparr>))
         | Mote n \<Rightarrow>
             (case lookup (backoffExponentPerNeigh m) n of
                Inl err \<Rightarrow> Inl err
              | Inr e0 \<Rightarrow>
                  (let e = (if e0 < backoffMaxExp st then e0 + 1 else e0)
                   in Inr (m\<lparr>backoffExponentPerNeigh :=
                               AList.update n e (backoffExponentPerNeigh m),
                             backoffPerNeigh :=
                               AList.update n (randint 0 (2 ^ nat e - 1)) (backoffPerNeigh m)\<rparr>))))
      else Inr m)"

definition txDone_silent ::
  "settings \<Rightarrow> (int \<Rightarrow> int \<Rightarrow> int) \<Rightarrow> nat \<Rightarrow> cell \<Rightarrow> packet \<Rightarrow> mote \<Rightarrow> error + mote" where
  "txDone_silent st randint ts c pkt m =
     (case increase_backoff st randint c m of
        Inl e \<Rightarrow> Inl e
      | Inr m1 \<Rightarrow>
          retry_or_drop pkt (update_cell ts (\<lambda>c. c\<lparr>history := history c @ [0]\<rparr>) m1))"

text \<open>
  \<open>radio_txDone(isACKed, isNACKed)\<close> at ASN \<open>now\<close>. \<open>canbeInterfered\<close> is the debug flag
  the function computes from the schedules of the other motes of the engine.
\<close>

definition radio_txDone ::
  "settings \<Rightarrow> nat \<Rightarrow> nat \<Rightarrow> (int \<Rightarrow> int \<Rightarrow> int) \<Rightarrow> bool \<Rightarrow> bool \<Rightarrow> mote \<Rightarrow> error + mote" where
  "radio_txDone st now canbeInterfered randint isACKed isNACKed m =
     (let ts = now mod slotframeLength st in
      case map_of (schedule m) ts of
        None \<Rightarrow> Inl AssertionError
      | Some c0 \<Rightarrow>
          if \<not> (dir c0 = DIR_TX \<or> dir c0 = DIR_TXRX_SHARED) then Inl AssertionError
          else if waitingFor m \<noteq> Some DIR_TX then Inl AssertionError
          else
            let m0 = update_cell ts
                       (\<lambda>c. c\<lparr>debug_canbeInterfered := debug_canbeInterfered c @ [canbeInterfered]\<rparr>)
                       m
            in (case pktToSend m0 of
                  None \<Rightarrow> Inl TypeError
                | Some pkt \<Rightarrow>
                    (case
                       (if isACKed then txDone_acked st now ts c0 pkt m0
                        else if isNACKed then txDone_nacked st now ts c0 pkt m0
                        else if dstIp pkt = BROADCAST_ADDRESS then txDone_broadcast pkt m0
                        else txDone_silent st randint ts c0 pkt m0)
                     of
                       Inl e \<Rightarrow> Inl e
                     | Inr m' \<Rightarrow> Inr (m'\<lparr>waitingFor := None\<rparr>))))"

section \<open>6top: choosing the cells to remove\<close>

text \<open>
  \<open>_sixtop_removeCells(neighbor, numCellsToRemove, dir, timeout)\<close> up to the list of
  timeslots it hands to \<open>_sixtop_cell_deletion_sender\<close>. The candidates are the tuples
  \<open>(ts, numTxAck, numTx, cellPDR)\<close> of the TX or SHARED cells to the neighbor that are
  their own parent slot.
\<close>

type_synonym candidate = "nat \<times> nat \<times> nat \<times> rat"

definition cand_numTx :: "candidate \<Rightarrow> nat" where
  "cand_numTx x = (case x of (ts, acks, txs, pdr) \<Rightarrow> txs)"

definition cand_pdr :: "candidate \<Rightarrow> rat" where
  "cand_pdr x = (case x of (ts, acks, txs, pdr) \<Rightarrow> pdr)"

fun removal_candidates :: "mote \<Rightarrow> nat \<Rightarrow> (nat \<times> cell) list \<Rightarrow> error + candidate list" where
  "removal_candidates m n [] = Inr []"
| "removal_candidates m n ((ts, c) # rest) =
     (if parentTs c = Some ts \<and> tx_or_shared_to n c
      then (case getCellPDR m c of
              Inl e \<Rightarrow> Inl e
            | Inr p \<Rightarrow> (case removal_candidates m n rest of
                          Inl e \<Rightarrow> Inl e
                        | Inr xs \<Rightarrow> Inr ((ts, numTxAck c, numTx c, p) # xs)))
      else removal_candidates m n rest)"

text \<open>
  The worst-cell order: the candidates are grouped by cell PDR, the groups taken by
  ascending PDR; a group below the theoretical PDR is sorted by \<open>numTx\<close> with
  \<open>reverse=True\<close>, any other group by \<open>numTx\<close>. Python's \<open>sorted\<close> is stable, also with
  \<open>reverse=True\<close>.
\<close>

definition worst_first :: "rat \<Rightarrow> candidate list \<Rightarrow> candidate list" where
  "worst_first theoPDR scheduleList =
     concat (map (\<lambda>pdr.
                if pdr < theoPDR
                then sort_key (\<lambda>x. - int (cand_numTx x))
                       (filter (\<lambda>x. cand_pdr x = pdr) scheduleList)
                else sort_key (\<lambda>x. int (cand_numTx x))
                       (filter (\<lambda>x. cand_pdr x = pdr) scheduleList))
             (sort (remdups (map cand_pdr scheduleList))))"

text \<open>The slice \<open>xs[:k]\<close>; a negative \<open>k\<close> counts from the end.\<close>

definition py_take :: "int \<Rightarrow> 'a list \<Rightarrow> 'a list" where
  "py_take k xs = (if 0 \<le> k then take (nat k) xs else take (length xs - nat (- k)) xs)"

definition sixtop_removeCells ::
  "settings \<Rightarrow> (candidate list \<Rightarrow> candidate list) \<Rightarrow> mote \<Rightarrow> nat \<Rightarrow> int \<Rightarrow> error + nat list" where
  "sixtop_removeCells st shuffle m n numCellsToRemove =
     (case removal_candidates m n (schedule m) of
        Inl e \<Rightarrow> Inl e
      | Inr scheduleList \<Rightarrow>
          (case
             (if sixtopRemoveRandomCell st then Inr (shuffle scheduleList)
              else
                (case lookup (RSSI m) n of
                   Inl e \<Rightarrow> Inl e
                 | Inr rssi \<Rightarrow>
                     (case (if individualModulations st = 1
                            then lookup (modulation m) n else Inr []) of
                        Inl e \<Rightarrow> Inl e
                      | Inr mcs \<Rightarrow>
                          (case getPDR m (Mote n) of
                             Inl e \<Rightarrow> Inl e
                           | Inr theoPDR \<Rightarrow> Inr (worst_first theoPDR scheduleList)))))
           of
             Inl e \<Rightarrow> Inl e
           | Inr ordered \<Rightarrow>
               (let tsList = map fst (py_take numCellsToRemove ordered)
                in if int (length tsList) \<noteq> numCellsToRemove then Inl AssertionError
                   else Inr tsList)))"

text \<open>
  The order the code establishes: \<open>a\<close> may stand before \<open>b\<close> when its cell PDR
  is lower, or when the PDRs are equal and \<open>a\<close> has the higher \<open>numTx\<close> in a group below
  the theoretical PDR, the lower \<open>numTx\<close> in a group at or above it.
\<close>

definition removed_before :: "rat \<Rightarrow> candidate \<Rightarrow> candidate \<Rightarrow> bool" where
  "removed_before theoPDR a b =
     (cand_pdr a < cand_pdr b \<or>
      (cand_pdr a = cand_pdr b \<and>
       (if cand_pdr a < theoPDR then cand_numTx b \<le> cand_numTx a
        else cand_numTx a \<le> cand_numTx b)))"

section \<open>Concrete motes and packets\<close>

text \<open>
  The inputs at which the theorems below are instantiated: a mote with no neighbor, no
  cell and no traffic, and a DATA packet, each varied by record update where it is used.
\<close>

definition mote0 :: mote where
  "mote0 =
     \<lparr>mote_id = 1, dagRoot = False, dagRootAddress = Some 0,
      preferredParent = None, oldPreferredParent = None,
      PDR = [], RSSI = [], modulation = [],
      numCellsToNeighbors = [], numCellsFromNeighbors = [],
      sixtopStates = [], txQueue = [], pktToSend = None, schedule = [],
      waitingFor = None, backoffBroadcast = 0, backoffBroadcastExponent = 1,
      backoffPerNeigh = [], backoffExponentPerNeigh = [],
      motestats = (\<lambda>name. 0), timeCorrectedSlot = None,
      currentOldPrefParentRemoval = 0, oldPrefParentRemoval = 0,
      isConverged = False, isConvergedASN = None,
      rplPrefParentChurnToAndASN = (None, None), rplPrefParentASNDiffs = [],
      tsSixTopReqRecv = []\<rparr>"

definition packet0 :: packet where
  "packet0 =
     \<lparr>asn = 0, ptype = APP_TYPE_DATA, code = None, payload = PayloadOther [1, 0, 1],
      retriesLeft = TSCH_MAXTXRETRIES, srcIp = 1, dstIp = DstMote 0, sourceRoute = [],
      nextHop = None\<rparr>"

definition settings0 :: settings where
  "settings0 =
     \<lparr>sf = ''msf'', slotframeLength = 101, slotDuration = 1 / 100, minCellsMSF = 1,
      backoffMinExp = 2, backoffMaxExp = 4, individualModulations = 0,
      sixtopRemoveRandomCell = False, convergeFirst = False,
      modulationSlots = [(''QPSK_FEC_1_2'', 2)]\<rparr>"

definition cell0 :: cell where
  "cell0 =
     \<lparr>ch = 0, dir = DIR_TXRX_SHARED, neighbor = Mote 0, numTx = 0, numTxAck = 0, numRx = 0,
      history = [], debug_canbeInterfered = [], parentTs = None, cell_modulation = None\<rparr>"

definition half0 :: sixtop_half where
  "half0 =
     \<lparr>state = SIX_STATE_IDLE, blockedCells = [], seqNum = 0, timeout = None, timer = None\<rparr>"




definition no_cells :: mote where
  "no_cells = mote0\<lparr>preferredParent := Some 0, PDR := [(0, 1)]\<rparr>"





definition switching :: mote where
  "switching =
     mote0\<lparr>preferredParent := Some 2, oldPreferredParent := Some 0,
           PDR := [(0, 1 / 2), (2, 1)], numCellsToNeighbors := [(0, 1)],
           schedule := [(3, cell0)]\<rparr>"

definition waiting_states :: "(nat \<times> sixtop_neighbor) list" where
  "waiting_states =
     [(2, \<lparr>tx = Some (half0\<lparr>state := SIX_STATE_WAIT_ADDRESPONSE,
                              blockedCells := [(5, 0, DIR_TXRX_SHARED)], seqNum := 3,
                              timeout := Some 15,
                              timer := Some \<lparr>timer_tag = (1, 2), timer_asn = 700\<rparr>\<rparr>),
           rx = None\<rparr>)]"

definition data_pkt :: packet where
  "data_pkt = packet0\<lparr>nextHop := Some [Some 0]\<rparr>"

definition sending :: mote where
  "sending =
     mote0\<lparr>preferredParent := Some 0, PDR := [(0, 1 / 2)],
           schedule := [(3, cell0\<lparr>dir := DIR_TX, numTx := 12, numTxAck := 6\<rparr>)],
           txQueue := [data_pkt], pktToSend := Some data_pkt, waitingFor := Some DIR_TX,
           backoffPerNeigh := [(0, 0)], backoffExponentPerNeigh := [(0, 1)]\<rparr>"

definition dio :: packet where
  "dio = packet0\<lparr>ptype := RPL_TYPE_DIO, retriesLeft := 1, dstIp := BROADCAST_ADDRESS,
                 nextHop := Some [Some 2]\<rparr>"

definition beaconing :: mote where
  "beaconing =
     mote0\<lparr>preferredParent := Some 0, PDR := [(0, 1 / 2), (2, 1)],
           schedule := [(0, cell0\<lparr>neighbor := Motes [0, 2]\<rparr>)],
           txQueue := [dio], pktToSend := Some dio, waitingFor := Some DIR_TX,
           backoffBroadcast := 5, backoffBroadcastExponent := 3\<rparr>"

definition sharing :: mote where
  "sharing =
     sending\<lparr>schedule := [(3, cell0\<lparr>numTx := 12, numTxAck := 6\<rparr>)],
             backoffPerNeigh := [(0, 3)], backoffExponentPerNeigh := [(0, 4)]\<rparr>"

text \<open>
  A mote with four SHARED cells to neighbor 0, each its own parent slot, on a link of
  PDR 1/2: the cells at slots 4 and 8 have too few transmissions for a PDR of their own and
  take the link's, the cells at slots 12 and 16 have an observed PDR of 1/4.
\<close>

definition removing :: mote where
  "removing = mote0\<lparr>preferredParent := Some 0, PDR := [(0, 1 / 2)], RSSI := [(0, - 80)],
     schedule := [(4, cell0\<lparr>parentTs := Some 4, numTx := 3, numTxAck := 2\<rparr>),
                  (8, cell0\<lparr>parentTs := Some 8, numTx := 5, numTxAck := 3\<rparr>),
                  (12, cell0\<lparr>parentTs := Some 12, numTx := 20, numTxAck := 5\<rparr>),
                  (16, cell0\<lparr>parentTs := Some 16, numTx := 40, numTxAck := 10\<rparr>)]\<rparr>"

definition timer_states :: "(nat \<times> sixtop_neighbor) list" where
  "timer_states =
     [(2, \<lparr>tx = Some (half0\<lparr>state := SIX_STATE_WAIT_ADDRESPONSE,
                              blockedCells := [(5, 0, DIR_TXRX_SHARED)],
                              timer := Some \<lparr>timer_tag = (1, 2), timer_asn = 700\<rparr>\<rparr>),
           rx = None\<rparr>),
      (3, \<lparr>tx = Some (half0\<lparr>state := SIX_STATE_WAIT_DELETERESPONSE,
                              timer := Some \<lparr>timer_tag = (1, 3), timer_asn = 900\<rparr>\<rparr>),
           rx = None\<rparr>)]"

section \<open>Properties of the 6top timeout callback\<close>

lemma sixtop_timer_loop_states:
  "fst (sixtop_timer_loop now xs found) =
     map (\<lambda>(n, e). (n, if timer_due now e then abort_transaction e else e)) xs"
  by (induction xs arbitrary: found) (auto simp: case_prod_beta)

lemma sixtop_timer_loop_found:
  "snd (sixtop_timer_loop now xs found) = (found \<or> (\<exists>e \<in> snd ` set xs. timer_due now e))"
proof (induction xs arbitrary: found)
  case Nil
  show ?case by simp
next
  case (Cons a xs)
  obtain n e where a: "a = (n, e)" by (cases a)
  show ?case
    using Cons.IH [of True] Cons.IH [of found]
    by (auto simp: a case_prod_beta)
qed

lemma sixtop_timer_fired_eq:
  "sixtop_timer_fired now m =
     (if \<exists>e \<in> snd ` set (sixtopStates m). timer_due now e
      then Inr (m\<lparr>sixtopStates :=
             map (\<lambda>(n, e). (n, if timer_due now e then abort_transaction e else e))
               (sixtopStates m)\<rparr>)
      else Inl AssertionError)"
  using sixtop_timer_loop_states [of now "sixtopStates m" False]
    sixtop_timer_loop_found [of now "sixtopStates m" False]
  by (simp add: sixtop_timer_fired_def case_prod_beta)

lemma abort_transaction_due:
  assumes "timer_due now e"
  shows "rx (abort_transaction e) = rx e \<and>
         (\<exists>h. tx e = Some h \<and>
            tx (abort_transaction e) =
              Some (h\<lparr>state := SIX_STATE_IDLE, blockedCells := [], timer := None\<rparr>))"
  using assms by (auto simp: timer_due_def abort_transaction_def split: option.splits)

text \<open>
  Claim C10. \<open>_sixtop_timer_fired\<close> aborts on its assertion exactly when no neighbor's
  tx half-context holds a timer scheduled for the current ASN. Otherwise it returns, the
  mote differs from the old one in \<open>sixtopStates\<close> only, the neighbors are the same, and
  every neighbor whose tx timer is scheduled for the current ASN has its tx state set to
  IDLE, its blocked cells emptied and its timer deleted (its sequence number, its timeout
  and its rx half are kept); every other neighbor is unchanged.
\<close>

theorem sixtop_timer_fired_resets:
  "(sixtop_timer_fired now m = Inl AssertionError \<longleftrightarrow>
      \<not> (\<exists>e \<in> snd ` set (sixtopStates m). timer_due now e)) \<and>
   ((\<exists>e \<in> snd ` set (sixtopStates m). timer_due now e) \<longrightarrow>
      (\<exists>m'. sixtop_timer_fired now m = Inr m' \<and>
         m' = m\<lparr>sixtopStates := sixtopStates m'\<rparr> \<and>
         map fst (sixtopStates m') = map fst (sixtopStates m) \<and>
         (\<forall>i < length (sixtopStates m).
            (timer_due now (snd (sixtopStates m ! i)) \<longrightarrow>
               rx (snd (sixtopStates m' ! i)) = rx (snd (sixtopStates m ! i)) \<and>
               (\<exists>h. tx (snd (sixtopStates m ! i)) = Some h \<and>
                  tx (snd (sixtopStates m' ! i)) =
                    Some (h\<lparr>state := SIX_STATE_IDLE, blockedCells := [], timer := None\<rparr>))) \<and>
            (\<not> timer_due now (snd (sixtopStates m ! i)) \<longrightarrow>
               sixtopStates m' ! i = sixtopStates m ! i))))"
proof (intro conjI impI)
  show "sixtop_timer_fired now m = Inl AssertionError \<longleftrightarrow>
      \<not> (\<exists>e \<in> snd ` set (sixtopStates m). timer_due now e)"
    by (simp add: sixtop_timer_fired_eq)
next
  assume due: "\<exists>e \<in> snd ` set (sixtopStates m). timer_due now e"
  let ?f = "\<lambda>(n, e). (n, if timer_due now e then abort_transaction e else e)"
  let ?m' = "m\<lparr>sixtopStates := map ?f (sixtopStates m)\<rparr>"
  have r: "sixtop_timer_fired now m = Inr ?m'"
    using due by (simp add: sixtop_timer_fired_eq)
  have keys: "map fst (sixtopStates ?m') = map fst (sixtopStates m)"
    by (simp add: case_prod_beta comp_def)
  have each: "\<forall>i < length (sixtopStates m).
            (timer_due now (snd (sixtopStates m ! i)) \<longrightarrow>
               rx (snd (sixtopStates ?m' ! i)) = rx (snd (sixtopStates m ! i)) \<and>
               (\<exists>h. tx (snd (sixtopStates m ! i)) = Some h \<and>
                  tx (snd (sixtopStates ?m' ! i)) =
                    Some (h\<lparr>state := SIX_STATE_IDLE, blockedCells := [], timer := None\<rparr>))) \<and>
            (\<not> timer_due now (snd (sixtopStates m ! i)) \<longrightarrow>
               sixtopStates ?m' ! i = sixtopStates m ! i)"
    using abort_transaction_due by (auto simp: case_prod_beta)
  show "\<exists>m'. sixtop_timer_fired now m = Inr m' \<and>
         m' = m\<lparr>sixtopStates := sixtopStates m'\<rparr> \<and>
         map fst (sixtopStates m') = map fst (sixtopStates m) \<and>
         (\<forall>i < length (sixtopStates m).
            (timer_due now (snd (sixtopStates m ! i)) \<longrightarrow>
               rx (snd (sixtopStates m' ! i)) = rx (snd (sixtopStates m ! i)) \<and>
               (\<exists>h. tx (snd (sixtopStates m ! i)) = Some h \<and>
                  tx (snd (sixtopStates m' ! i)) =
                    Some (h\<lparr>state := SIX_STATE_IDLE, blockedCells := [], timer := None\<rparr>))) \<and>
            (\<not> timer_due now (snd (sixtopStates m ! i)) \<longrightarrow>
               sixtopStates m' ! i = sixtopStates m ! i))"
    using r keys each by (intro exI [of _ ?m']) simp
qed

text \<open>
  At ASN 700 the transaction with neighbor 2 is reset and the one with neighbor 3, whose
  timer is set for ASN 900, is kept; at ASN 800 no timer is due and the callback aborts.
\<close>

theorem sixtop_timer_fired_resets_witness:
  "sixtop_timer_fired 700 (mote0\<lparr>sixtopStates := timer_states\<rparr>) =
     Inr (mote0\<lparr>sixtopStates :=
       [(2, \<lparr>tx = Some (half0\<lparr>blockedCells := [], timer := None\<rparr>), rx = None\<rparr>),
        timer_states ! 1]\<rparr>) \<and>
   sixtop_timer_fired 800 (mote0\<lparr>sixtopStates := timer_states\<rparr>) = Inl AssertionError"
  using sixtop_timer_fired_resets [of 700 "mote0\<lparr>sixtopStates := timer_states\<rparr>"]
    sixtop_timer_fired_resets [of 800 "mote0\<lparr>sixtopStates := timer_states\<rparr>"]
  by (simp add: timer_states_def half0_def timer_due_def sixtop_timer_fired_eq
      abort_transaction_def)

section \<open>Properties of the TSCH queue\<close>






text \<open>
  Claim C8, as stated, fails: under the scheduling function \<open>msf\<close> a mote with a route
  and no TX or SHARED cell does not drop the frame and continue; \<open>_tsch_enqueue\<close> runs
  into \<open>assert False\<close>.
\<close>

theorem tsch_enqueue_no_cells_counterexample:
  "getTxCells no_cells = [] \<and> getSharedCells no_cells = [] \<and>
   rpl_addNextHop no_cells packet0 = Inr (True, packet0\<lparr>nextHop := Some [Some 0]\<rparr>) \<and>
   sf settings0 = ''msf'' \<and>
   tsch_enqueue settings0 no_cells packet0 = Inl AssertionError"
  by (simp add: no_cells_def mote0_def packet0_def settings0_def getTxCells_def
      getSharedCells_def tsch_enqueue_def rpl_addNextHop_def)

text \<open>
  Claim C8, amended. For every frame that has a next hop, offered to \<open>_tsch_enqueue\<close> by
  a mote that has no TX cell and no SHARED cell: when the scheduling function is \<open>ilp\<close>
  the rejection is a local drop (\<open>droppedNoTxCells\<close> is incremented, nothing else
  changes, the call returns False); under every other scheduling function the call ends
  in a failed assertion, which aborts the simulation.
\<close>

theorem tsch_enqueue_no_cells:
  assumes route: "rpl_addNextHop m packet = Inr (True, p)"
    and cells: "getTxCells m = []" "getSharedCells m = []"
  shows "tsch_enqueue st m packet =
     (if sf st = ''ilp''
      then Inr (False,
             m\<lparr>motestats :=
                 (motestats m)(''droppedNoTxCells'' := motestats m ''droppedNoTxCells'' + 1)\<rparr>)
      else Inl AssertionError)"
  using cells by (simp add: tsch_enqueue_def route stats_incrementMoteStats_def)

theorem tsch_enqueue_no_cells_witness:
  "tsch_enqueue (settings0\<lparr>sf := ''ilp''\<rparr>) no_cells packet0 =
     Inr (False, no_cells\<lparr>motestats := (\<lambda>name. 0)(''droppedNoTxCells'' := 1)\<rparr>) \<and>
   tsch_enqueue settings0 no_cells packet0 = Inl AssertionError"
proof -
  have r: "rpl_addNextHop no_cells packet0 = Inr (True, packet0\<lparr>nextHop := Some [Some 0]\<rparr>)"
    by (simp add: rpl_addNextHop_def no_cells_def mote0_def packet0_def)
  have c1: "getTxCells no_cells = []"
    by (simp add: getTxCells_def no_cells_def mote0_def)
  have c2: "getSharedCells no_cells = []"
    by (simp add: getSharedCells_def no_cells_def mote0_def)
  show ?thesis
    using tsch_enqueue_no_cells [OF r c1 c2, of "settings0\<lparr>sf := ''ilp''\<rparr>"]
      tsch_enqueue_no_cells [OF r c1 c2, of settings0]
    by (simp add: no_cells_def mote0_def settings0_def)
qed

section \<open>Properties of the MSF timeout and of the ETX estimate\<close>





lemma estimateETX_loop_sums:
  "estimateETX_loop n sch (a, b) =
     (a + (\<Sum>(ts, c) \<leftarrow> filter (\<lambda>(ts, c). tx_or_shared_to n c) sch. of_nat (numTx c)),
      b + (\<Sum>(ts, c) \<leftarrow> filter (\<lambda>(ts, c). tx_or_shared_to n c) sch. of_nat (numTxAck c)))"
  by (induction sch arbitrary: a b) (auto simp: algebra_simps)




section \<open>Properties of the MSF parent change\<close>

text \<open>
  Claim C5, as stated, fails: the number of cells requested is
  \<open>numCellsToNeighbors.get(oldPreferredParent, minCellsMSF)\<close>, the count of the old parent
  where one is recorded and \<open>minCellsMSF\<close> only where none is. With one cell to the old
  parent and \<open>minCellsMSF = 2\<close> the request is for one cell.
\<close>

theorem msf_action_parent_change_counterexample:
  "dict_get (numCellsToNeighbors switching) (oldPreferredParent switching) 0 = 1 \<and>
   dict_get (numCellsToNeighbors switching) (preferredParent switching) 0 = 0 \<and>
   minCellsMSF (settings0\<lparr>minCellsMSF := 2\<rparr>) = 2 \<and>
   msf_action_parent_change (settings0\<lparr>minCellsMSF := 2\<rparr>) switching =
     Inr (Some (Cell_reservation_request 2 1 DIR_TXRX_SHARED 15))"
  by (simp add: switching_def mote0_def cell0_def settings0_def msf_action_parent_change_def
      dict_get_def msf_get_sixtop_timeout_def tx_or_shared_to_def)

text \<open>
  Claim C5, amended. Whenever the MSF parent-change action runs on a mote that has no
  dedicated cells to its preferred parent (and the timeout to it is computed), it issues
  a 6top ADD request to the preferred parent, for SHARED cells: for \<open>minCellsMSF\<close> cells
  when there is no old preferred parent or no cell count is recorded for it, and for as
  many cells as are scheduled to the old preferred parent when that count is positive
  (the same number as with the old parent, which may be below \<open>minCellsMSF\<close>).
\<close>

theorem msf_action_parent_change_add:
  assumes "preferredParent m = Some parent"
    and "dict_get (numCellsToNeighbors m) (Some parent) 0 = 0"
    and "msf_get_sixtop_timeout st m parent = Inr t"
  shows "((oldPreferredParent m = None \<or>
           (\<exists>old. oldPreferredParent m = Some old \<and> map_of (numCellsToNeighbors m) old = None)) \<longrightarrow>
          msf_action_parent_change st m =
            Inr (Some (Cell_reservation_request parent (minCellsMSF st) DIR_TXRX_SHARED t))) \<and>
         (\<forall>old k. oldPreferredParent m = Some old \<and>
                   map_of (numCellsToNeighbors m) old = Some k \<and> 0 < k \<longrightarrow>
          msf_action_parent_change st m =
            Inr (Some (Cell_reservation_request parent k DIR_TXRX_SHARED t)))"
  using assms by (auto simp: msf_action_parent_change_def dict_get_def)

theorem msf_action_parent_change_add_witness:
  "msf_action_parent_change (settings0\<lparr>minCellsMSF := 2\<rparr>) switching =
     Inr (Some (Cell_reservation_request 2 1 DIR_TXRX_SHARED 15)) \<and>
   msf_action_parent_change (settings0\<lparr>minCellsMSF := 2\<rparr>)
       (switching\<lparr>oldPreferredParent := None\<rparr>) =
     Inr (Some (Cell_reservation_request 2 2 DIR_TXRX_SHARED 15))"
proof -
  let ?st = "settings0\<lparr>minCellsMSF := 2\<rparr>"
  have p: "preferredParent switching = Some 2"
      "preferredParent (switching\<lparr>oldPreferredParent := None\<rparr>) = Some 2"
    by (simp_all add: switching_def mote0_def)
  have z: "dict_get (numCellsToNeighbors switching) (Some 2) 0 = 0"
      "dict_get (numCellsToNeighbors (switching\<lparr>oldPreferredParent := None\<rparr>)) (Some 2) 0 = 0"
    by (simp_all add: switching_def mote0_def dict_get_def)
  have t: "msf_get_sixtop_timeout ?st switching 2 = Inr 15"
      "msf_get_sixtop_timeout ?st (switching\<lparr>oldPreferredParent := None\<rparr>) 2 = Inr 15"
    by (simp_all add: switching_def mote0_def cell0_def msf_get_sixtop_timeout_def
        tx_or_shared_to_def)
  show ?thesis
    using msf_action_parent_change_add [OF p(1) z(1) t(1)]
      msf_action_parent_change_add [OF p(2) z(2) t(2)]
    by (simp add: switching_def mote0_def settings0_def)
qed

section \<open>Properties of the 6top response handling\<close>

lemma update_tx_found:
  assumes "map_of (sixtopStates m) n = Some e" "tx e = Some h"
  shows "update_tx n f m =
           Inr (m\<lparr>sixtopStates := AList.update n (e\<lparr>tx := Some (f h)\<rparr>) (sixtopStates m)\<rparr>)"
  using assms by (simp add: update_tx_def)

lemma sixtopStates_stats [simp]:
  "sixtopStates (stats_incrementMoteStats name m) = sixtopStates m"
  by (simp add: stats_incrementMoteStats_def)

text \<open>
  Claim C2. For every 6top ADD response (with one of the return codes SUCCESS, NORES and
  RESET that \<open>_sixtop_receive_RESPONSE\<close> asserts) received from a neighbor whose
  transaction is in state WAIT_ADDRESPONSE: if the timer of the transaction is scheduled
  for the ASN at which the response arrives, the response is discarded (the function
  returns False), the tx state is IDLE and the blocked cells are cleared. Nothing else
  changes but the counter \<open>6topRxAddResp\<close>: the schedule and the cell counters are those
  of before and the sequence number is not advanced, whatever the sequence number of the
  response.
\<close>

theorem sixtop_receive_RESPONSE_at_timeout:
  assumes entry: "map_of (sixtopStates m) smac = Some e" "tx e = Some h"
    and waiting: "state h = SIX_STATE_WAIT_ADDRESPONSE"
    and rc: "rc = IANA_6TOP_RC_SUCCESS \<or> rc = IANA_6TOP_RC_NORES \<or> rc = IANA_6TOP_RC_RESET"
    and due: "timer h = Some t" "timer_asn t = int now"
  shows "sixtop_receive_RESPONSE st now rc smac (Payload6P cells numCells d seq) m =
     Inr (Some False,
       m\<lparr>motestats := (motestats m)(''6topRxAddResp'' := motestats m ''6topRxAddResp'' + 1),
         sixtopStates :=
           AList.update smac
             (e\<lparr>tx := Some (h\<lparr>state := SIX_STATE_IDLE, blockedCells := []\<rparr>)\<rparr>)
             (sixtopStates m)\<rparr>)"
proof -
  let ?m1 = "stats_incrementMoteStats ''6topRxAddResp'' m"
  have idle: "update_tx smac go_idle ?m1 =
      Inr (?m1\<lparr>sixtopStates :=
             AList.update smac (e\<lparr>tx := Some (go_idle h)\<rparr>) (sixtopStates ?m1)\<rparr>)"
    by (rule update_tx_found) (simp_all add: entry)
  have branch: "receive_ADD_RESPONSE st now rc smac (Payload6P cells numCells d seq) h m =
      (case update_tx smac go_idle ?m1 of Inl e \<Rightarrow> Inl e | Inr m2 \<Rightarrow> Inr (Some False, m2))"
    using rc due by (auto simp: receive_ADD_RESPONSE_def Let_def)
  have "sixtop_receive_RESPONSE st now rc smac (Payload6P cells numCells d seq) m =
      Inr (Some False, ?m1\<lparr>sixtopStates :=
             AList.update smac (e\<lparr>tx := Some (go_idle h)\<rparr>) (sixtopStates ?m1)\<rparr>)"
    by (simp add: sixtop_receive_RESPONSE_def entry waiting branch idle)
  then show ?thesis
    by (simp add: go_idle_def stats_incrementMoteStats_def)
qed

text \<open>
  A successful ADD response with the right sequence number, arriving at ASN 700 for a
  transaction whose timer is set for ASN 700.
\<close>

theorem sixtop_receive_RESPONSE_at_timeout_witness:
  "sixtop_receive_RESPONSE settings0 700 IANA_6TOP_RC_SUCCESS 2
     (Payload6P (AddCells [(5, 0, DIR_TXRX_SHARED)]) 1 DIR_TXRX_SHARED 3)
     (mote0\<lparr>sixtopStates := waiting_states\<rparr>) =
   Inr (Some False,
     mote0\<lparr>motestats := (\<lambda>name. 0)(''6topRxAddResp'' := 1),
           sixtopStates :=
             [(2, \<lparr>tx = Some (half0\<lparr>seqNum := 3, timeout := Some 15,
                     timer := Some \<lparr>timer_tag = (1, 2), timer_asn = 700\<rparr>\<rparr>),
                   rx = None\<rparr>)]\<rparr>)"
proof -
  let ?h = "half0\<lparr>state := SIX_STATE_WAIT_ADDRESPONSE,
                              blockedCells := [(5, 0, DIR_TXRX_SHARED)], seqNum := 3,
                              timeout := Some 15,
                              timer := Some \<lparr>timer_tag = (1, 2), timer_asn = 700\<rparr>\<rparr>"
  let ?e = "\<lparr>tx = Some ?h, rx = None\<rparr>"
  let ?t = "\<lparr>timer_tag = (1 :: nat, 2 :: nat), timer_asn = 700\<rparr>"
  have a: "map_of (sixtopStates (mote0\<lparr>sixtopStates := waiting_states\<rparr>)) 2 = Some ?e"
    by (simp add: waiting_states_def)
  have b: "tx ?e = Some ?h" by simp
  have c: "state ?h = SIX_STATE_WAIT_ADDRESPONSE" by simp
  have d: "IANA_6TOP_RC_SUCCESS = IANA_6TOP_RC_SUCCESS \<or> IANA_6TOP_RC_SUCCESS = IANA_6TOP_RC_NORES
       \<or> IANA_6TOP_RC_SUCCESS = IANA_6TOP_RC_RESET" by simp
  have e: "timer ?h = Some ?t" by simp
  have f: "timer_asn ?t = int 700" by simp
  show ?thesis
    using sixtop_receive_RESPONSE_at_timeout [OF a b c d e f, of settings0
        "AddCells [(5, 0, DIR_TXRX_SHARED)]" 1 DIR_TXRX_SHARED 3]
    by (simp add: mote0_def half0_def waiting_states_def)
qed

section \<open>Properties of the end of a transmission\<close>

lemma map_entry_twice:
  "AList.map_entry k f (AList.map_entry k g xs) = AList.map_entry k (f \<circ> g) xs"
  by (induction xs) auto

lemma schedule_update_cell [simp]:
  "schedule (update_cell ts f m) = AList.map_entry ts f (schedule m)"
  by (simp add: update_cell_def)

lemma schedule_stats [simp]: "schedule (stats_incrementMoteStats name m) = schedule m"
  by (simp add: stats_incrementMoteStats_def)

lemma schedule_time_correction [simp]: "schedule (time_correction now c m) = schedule m"
  by (simp add: time_correction_def)

lemma schedule_reset_backoff [simp]: "schedule (reset_backoff st d nb m) = schedule m"
  by (simp add: reset_backoff_def tsch_resetBackoffPerNeigh_def tsch_resetBroadcastBackoff_def
      split: peer.splits)

lemma schedule_update_tx: "update_tx n f m = Inr m' \<Longrightarrow> schedule m' = schedule m"
  by (auto simp: update_tx_def split: option.splits)

lemma schedule_update_rx: "update_rx n f m = Inr m' \<Longrightarrow> schedule m' = schedule m"
  by (auto simp: update_rx_def split: option.splits)

lemma schedule_retry_or_drop: "retry_or_drop pkt m = Inr m' \<Longrightarrow> schedule m' = schedule m"
  by (auto simp: retry_or_drop_def Let_def split: if_splits dst.splits
      dest!: schedule_update_tx schedule_update_rx)

lemma txDone_nacked_schedule:
  assumes "txDone_nacked st now ts c pkt m = Inr m'"
  shows "schedule m' =
    AList.map_entry ts (\<lambda>c. c\<lparr>numTxAck := numTxAck c + 1, history := history c @ [1]\<rparr>)
      (schedule m)"
  using assms
  by (auto simp: txDone_nacked_def Let_def map_entry_twice comp_def split: sum.splits
      dest!: schedule_retry_or_drop)


lemma tsch_addCells_keeps:
  "tsch_addCells nb cells pts mcs sch = Inr sch' \<Longrightarrow> k \<in> fst ` set sch \<Longrightarrow>
     map_of sch' k = map_of sch k"
proof (induction cells arbitrary: sch)
  case Nil
  then show ?case by simp
next
  case (Cons x cells)
  obtain ts chn d where x: "x = (ts, chn, d)" by (cases x)
  let ?new = "\<lparr>ch = chn, dir = d, neighbor = nb, numTx = 0, numTxAck = 0, numRx = 0,
                 history = [], debug_canbeInterfered = [], parentTs = pts,
                 cell_modulation = mcs\<rparr>"
  from Cons.prems x have free: "ts \<notin> fst ` set sch"
    and rest: "tsch_addCells nb cells pts mcs (AList.update ts ?new sch) = Inr sch'"
    by (auto split: if_splits)
  have "k \<in> fst ` set (AList.update ts ?new sch)"
    using Cons.prems(2) by (simp add: dom_update)
  then have "map_of sch' k = map_of (AList.update ts ?new sch) k"
    using Cons.IH [OF rest] by simp
  also have "\<dots> = map_of sch k"
    using free Cons.prems(2) by (auto simp: update_conv')
  finally show ?case .
qed

lemma tsch_removeCells_keeps:
  "tsch_removeCells nb tss sch = Inr sch' \<Longrightarrow>
     map_of sch' k = None \<or> map_of sch' k = map_of sch k"
proof (induction tss arbitrary: sch)
  case Nil
  then show ?case by simp
next
  case (Cons ts tss)
  from Cons.prems have rest: "tsch_removeCells nb tss (AList.delete ts sch) = Inr sch'"
    by (auto split: option.splits if_splits)
  from Cons.IH [OF rest] show ?case
    by (auto simp: delete_conv')
qed

lemma install_cells_keeps:
  assumes "install_cells st n cells d keep m = Inr m'" "map_of (schedule m) k = Some c"
  shows "map_of (schedule m') k = Some c"
proof -
  have k: "k \<in> fst ` set (schedule m)"
    using assms(2) by (metis domI dom_map_of_conv_image_fst)
  show ?thesis
    using assms(1) tsch_addCells_keeps [OF _ k] assms(2)
    by (auto simp: install_cells_def split: if_splits sum.splits prod.splits)
qed

lemma uninstall_cells_keeps:
  assumes "uninstall_cells st n tss m = Inr m'"
  shows "map_of (schedule m') k = None \<or> map_of (schedule m') k = map_of (schedule m) k"
  using assms
  by (auto simp: uninstall_cells_def split: if_splits sum.splits prod.splits
      dest: tsch_removeCells_keeps [where k = k])

lemma schedule_count_added [simp]: "schedule (count_added d n k m) = schedule m"
  by (simp add: count_added_def)

lemma schedule_count_removed: "count_removed d n k m = Inr m' \<Longrightarrow> schedule m' = schedule m"
  by (auto simp: count_removed_def split: if_splits sum.splits)

lemma confirm_cells_keeps:
  assumes "confirm_cells st n adding cl rd m = Inr m'" "map_of (schedule m) k = Some c"
  shows "map_of (schedule m') k = None \<or> map_of (schedule m') k = Some c"
proof (cases adding)
  case True
  then obtain cells m2 where m2: "install_cells st n cells rd True m = Inr m2"
    and m': "m' = count_added rd n (int (length cells)) m2"
    using assms(1) by (auto simp: confirm_cells_def split: cell_list.splits if_splits sum.splits)
  show ?thesis
    using install_cells_keeps [OF m2 assms(2)] m' by simp
next
  case False
  then obtain tss m2 where m2: "uninstall_cells st n tss m = Inr m2"
    and m': "count_removed rd n (int (length tss)) m2 = Inr m'"
    using assms(1) by (auto simp: confirm_cells_def split: cell_list.splits if_splits sum.splits)
  show ?thesis
    using uninstall_cells_keeps [OF m2, of k] schedule_count_removed [OF m'] assms(2) by simp
qed

lemma sixtop_receive_RESPONSE_ACK_keeps:
  assumes "sixtop_receive_RESPONSE_ACK st now pkt m = Inr m'" "map_of (schedule m) k = Some c"
  shows "map_of (schedule m') k = None \<or> map_of (schedule m') k = Some c"
  using assms
  by (auto simp: sixtop_receive_RESPONSE_ACK_def
      split: dst.splits option.splits if_splits payload.splits sum.splits
      dest!: schedule_update_rx dest: confirm_cells_keeps [where k = k and c = c])

lemma schedule_ack_request: "ack_request st now pkt m = Inr m' \<Longrightarrow> schedule m' = schedule m"
  by (auto simp: ack_request_def arm_timer_def
      split: if_splits dst.splits option.splits dest!: schedule_update_tx)

lemma txDone_acked_schedule:
  assumes "txDone_acked st now ts c pkt m = Inr m'" "map_of (schedule m) k = Some c0"
  shows "map_of (schedule m') k = None \<or>
    map_of (schedule m') k =
      map_of (AList.map_entry ts
        (\<lambda>c. c\<lparr>numTxAck := numTxAck c + 1, history := history c @ [1]\<rparr>) (schedule m)) k"
proof -
  let ?f = "\<lambda>c. c\<lparr>numTxAck := numTxAck c + 1, history := history c @ [1]\<rparr>"
  let ?m3 = "time_correction now c
     (update_cell ts (\<lambda>c. c\<lparr>history := history c @ [1]\<rparr>)
       (update_cell ts (\<lambda>c. c\<lparr>numTxAck := numTxAck c + 1\<rparr>) m))"
  have s3: "schedule ?m3 = AList.map_entry ts ?f (schedule m)"
    by (simp add: map_entry_twice comp_def)
  from assms(1) obtain m4 m5 where
    m4: "ack_request st now pkt ?m3 = Inr m4"
    and m5: "m5 = m4 \<or> sixtop_receive_RESPONSE_ACK st now pkt m4 = Inr m5"
    and m': "m' = reset_backoff st (dir c) (neighbor c) (m5\<lparr>txQueue := remove1 pkt (txQueue m5)\<rparr>)"
    by (auto simp: txDone_acked_def Let_def split: sum.splits if_splits)
  let ?c1 = "if k = ts then ?f c0 else c0"
  have c1: "map_of (AList.map_entry ts ?f (schedule m)) k = Some ?c1"
    using assms(2) by (auto simp: map_of_map_entry)
  have c4: "map_of (schedule m4) k = Some ?c1"
    using schedule_ack_request [OF m4] s3 c1 by simp
  have "map_of (schedule m5) k = None \<or> map_of (schedule m5) k = Some ?c1"
  proof (cases "m5 = m4")
    case True
    then show ?thesis using c4 by simp
  next
    case False
    then have "sixtop_receive_RESPONSE_ACK st now pkt m4 = Inr m5"
      using m5 by simp
    then show ?thesis
      by (rule sixtop_receive_RESPONSE_ACK_keeps) (rule c4)
  qed
  then show ?thesis
    using m' c1 by simp
qed


lemma PDR_update_cell [simp]: "PDR (update_cell ts f m) = PDR m"
  by (simp add: update_cell_def)

lemma PDR_stats [simp]: "PDR (stats_incrementMoteStats name m) = PDR m"
  by (simp add: stats_incrementMoteStats_def)

lemma PDR_time_correction [simp]: "PDR (time_correction now c m) = PDR m"
  by (simp add: time_correction_def)

lemma PDR_reset_backoff [simp]: "PDR (reset_backoff st d nb m) = PDR m"
  by (simp add: reset_backoff_def tsch_resetBackoffPerNeigh_def tsch_resetBroadcastBackoff_def
      split: peer.splits)

lemma PDR_update_tx: "update_tx n f m = Inr m' \<Longrightarrow> PDR m' = PDR m"
  by (auto simp: update_tx_def split: option.splits)

lemma PDR_update_rx: "update_rx n f m = Inr m' \<Longrightarrow> PDR m' = PDR m"
  by (auto simp: update_rx_def split: option.splits)

lemma PDR_retry_or_drop: "retry_or_drop pkt m = Inr m' \<Longrightarrow> PDR m' = PDR m"
  by (auto simp: retry_or_drop_def Let_def split: if_splits dst.splits
      dest!: PDR_update_tx PDR_update_rx)

lemma txDone_nacked_PDR:
  assumes "txDone_nacked st now ts c pkt m = Inr m'"
  shows "PDR m' = PDR m"
  using assms
  by (auto simp: txDone_nacked_def Let_def split: sum.splits dest!: PDR_retry_or_drop)

lemma radio_txDone_nacked:
  assumes "radio_txDone st now cbi randint False True m = Inr m'"
  obtains c pkt m1 where "map_of (schedule m) (now mod slotframeLength st) = Some c"
    and "txDone_nacked st now (now mod slotframeLength st) c pkt
           (update_cell (now mod slotframeLength st)
              (\<lambda>c. c\<lparr>debug_canbeInterfered := debug_canbeInterfered c @ [cbi]\<rparr>) m) = Inr m1"
    and "m' = m1\<lparr>waitingFor := None\<rparr>"
  using assms
  by (auto simp: radio_txDone_def Let_def split: option.splits if_splits sum.splits)

lemma ack_sum_map_entry:
  assumes "map_of sch ts = Some c"
    and "\<And>c. tx_or_shared_to n (f c) = tx_or_shared_to n c"
    and "\<And>c. numTxAck (f c) = numTxAck c + 1"
    and "\<And>c. numTx (f c) = numTx c"
  shows "estimateETX_loop n (AList.map_entry ts f sch) (a, b) =
     (fst (estimateETX_loop n sch (a, b)),
      snd (estimateETX_loop n sch (a, b)) + (if tx_or_shared_to n c then 1 else 0))"
  using assms(1)
proof (induction sch arbitrary: a b)
  case Nil
  then show ?case by simp
next
  case (Cons x sch)
  obtain k d where x: "x = (k, d)" by (cases x)
  show ?case
  proof (cases "k = ts")
    case True
    then have d: "d = c" using Cons.prems x by simp
    show ?thesis
      using True d x assms(2-4)
      by (simp add: estimateETX_loop_sums algebra_simps)
  next
    case False
    then have "map_of sch ts = Some c" using Cons.prems x by simp
    from Cons.IH [OF this] show ?thesis
      using False x by simp
  qed
qed


lemma radio_txDone_acked:
  assumes "radio_txDone st now cbi randint True False m = Inr m'"
  obtains c pkt m1 where "map_of (schedule m) (now mod slotframeLength st) = Some c"
    and "txDone_acked st now (now mod slotframeLength st) c pkt
           (update_cell (now mod slotframeLength st)
              (\<lambda>c. c\<lparr>debug_canbeInterfered := debug_canbeInterfered c @ [cbi]\<rparr>) m) = Inr m1"
    and "m' = m1\<lparr>waitingFor := None\<rparr>"
  using assms
  by (auto simp: radio_txDone_def Let_def split: option.splits if_splits sum.splits)

text \<open>
  Claim C9. For every NACKed transmission that \<open>radio_txDone\<close> handles (its assertions
  hold and no lookup fails), the cell of the current timeslot is left with \<open>numTxAck\<close>
  incremented and a success entry 1 appended to its history (and the debug flag
  appended), its other fields as before. That is the cell an ACK leaves at this timeslot
  too, unless the acknowledged packet was a 6P response whose cells are thereby removed.
  So the NACKed frame counts as delivered: once the cell has \<open>NUM_SUFFICIENT_TX\<close>
  transmissions, \<open>getCellPDR\<close> returns \<open>(numTxAck + 1) / numTx\<close>, and the ETX estimate
  to the neighbor of the cell has one more acknowledgement in its denominator.
\<close>

theorem radio_txDone_nack_counts_as_ack:
  assumes "radio_txDone st now cbi randint False True m = Inr m'"
  shows "\<exists>c c'.
     map_of (schedule m) (now mod slotframeLength st) = Some c \<and>
     map_of (schedule m') (now mod slotframeLength st) = Some c' \<and>
     c' = c\<lparr>debug_canbeInterfered := debug_canbeInterfered c @ [cbi],
            numTxAck := numTxAck c + 1, history := history c @ [1]\<rparr> \<and>
     (\<forall>m''. radio_txDone st now cbi randint True False m = Inr m'' \<longrightarrow>
        map_of (schedule m'') (now mod slotframeLength st) = None \<or>
        map_of (schedule m'') (now mod slotframeLength st) = Some c') \<and>
     (NUM_SUFFICIENT_TX \<le> numTx c \<longrightarrow>
        getCellPDR m' c' = Inr (of_nat (numTxAck c + 1) / of_nat (numTx c))) \<and>
     (\<forall>n pdr. tx_or_shared_to n c \<and> getPDR m (Mote n) = Inr pdr \<longrightarrow>
        estimateETX m' n =
          (let cells = filter (\<lambda>(ts, c). tx_or_shared_to n c) (schedule m);
               tx_sum = of_nat NUM_SUFFICIENT_TX + (\<Sum>(ts, c) \<leftarrow> cells. of_nat (numTx c));
               ack_sum = of_int \<lfloor>pdr * of_nat NUM_SUFFICIENT_TX\<rfloor>
                           + (\<Sum>(ts, c) \<leftarrow> cells. of_nat (numTxAck c)) + 1
           in if ack_sum = 0 then Inr None else Inr (Some (tx_sum / ack_sum))))"
proof -
  let ?ts = "now mod slotframeLength st"
  let ?dbg = "\<lambda>c. c\<lparr>debug_canbeInterfered := debug_canbeInterfered c @ [cbi]\<rparr>"
  let ?ack = "\<lambda>c. c\<lparr>numTxAck := numTxAck c + 1, history := history c @ [1]\<rparr>"
  let ?m0 = "update_cell ?ts ?dbg m"
  from assms obtain c pkt m1 where c: "map_of (schedule m) ?ts = Some c"
    and m1: "txDone_nacked st now ?ts c pkt ?m0 = Inr m1"
    and m': "m' = m1\<lparr>waitingFor := None\<rparr>"
    by (rule radio_txDone_nacked)
  let ?c' = "c\<lparr>debug_canbeInterfered := debug_canbeInterfered c @ [cbi],
               numTxAck := numTxAck c + 1, history := history c @ [1]\<rparr>"
  have sched: "schedule m' = AList.map_entry ?ts (?ack \<circ> ?dbg) (schedule m)"
    using txDone_nacked_schedule [OF m1] m' by (simp add: map_entry_twice)
  have c': "map_of (schedule m') ?ts = Some ?c'"
    using c by (simp add: sched map_of_map_entry)
  have acked: "map_of (schedule m'') ?ts = None \<or> map_of (schedule m'') ?ts = Some ?c'"
    if "radio_txDone st now cbi randint True False m = Inr m''" for m''
  proof -
    from that obtain d pkt2 m2 where d: "map_of (schedule m) ?ts = Some d"
      and m2: "txDone_acked st now ?ts d pkt2 ?m0 = Inr m2"
      and m'': "m'' = m2\<lparr>waitingFor := None\<rparr>"
      by (rule radio_txDone_acked)
    have c0: "map_of (schedule ?m0) ?ts = Some (?dbg c)"
      using c by (simp add: map_of_map_entry)
    show ?thesis
      using txDone_acked_schedule [OF m2 c0] m'' c
      by (simp add: map_of_map_entry)
  qed
  have pdr: "getCellPDR m' ?c' = Inr (of_nat (numTxAck c + 1) / of_nat (numTx c))"
    if "NUM_SUFFICIENT_TX \<le> numTx c"
    using that by (simp add: getCellPDR_def)
  have etx: "estimateETX m' n =
          (let cells = filter (\<lambda>(ts, c). tx_or_shared_to n c) (schedule m);
               tx_sum = of_nat NUM_SUFFICIENT_TX + (\<Sum>(ts, c) \<leftarrow> cells. of_nat (numTx c));
               ack_sum = of_int \<lfloor>pdr * of_nat NUM_SUFFICIENT_TX\<rfloor>
                           + (\<Sum>(ts, c) \<leftarrow> cells. of_nat (numTxAck c)) + 1
           in if ack_sum = 0 then Inr None else Inr (Some (tx_sum / ack_sum)))"
    if "tx_or_shared_to n c" "getPDR m (Mote n) = Inr pdr" for n pdr
  proof -
    have p: "getPDR m' (Mote n) = Inr pdr"
      using that(2) txDone_nacked_PDR [OF m1] m' by (simp add: getPDR_def)
    have loop: "estimateETX_loop n (schedule m') (a, b) =
        (fst (estimateETX_loop n (schedule m) (a, b)),
         snd (estimateETX_loop n (schedule m) (a, b)) + 1)" for a b
      unfolding sched using ack_sum_map_entry [OF c, of n "?ack \<circ> ?dbg" a b] that(1)
      by (simp add: tx_or_shared_to_def)
    have "estimateETX m' n =
        (let (tx_sum, ack_sum) =
               estimateETX_loop n (schedule m)
                 (of_nat NUM_SUFFICIENT_TX, of_int \<lfloor>pdr * of_nat NUM_SUFFICIENT_TX\<rfloor>)
         in if ack_sum + 1 = 0 then Inr None else Inr (Some (tx_sum / (ack_sum + 1))))"
      by (simp add: estimateETX_def p loop case_prod_beta)
    then show ?thesis
      by (simp add: estimateETX_loop_sums Let_def)
  qed
  show ?thesis
    using c c' acked pdr etx by blast
qed


text \<open>
  A DATA packet NACKed in a TX cell with 12 transmissions and 6 acknowledgements, to a
  neighbor of link PDR 1/2: the cell then has 7 acknowledgements, the packet is kept with
  3 retries left, and the ETX estimate is \<open>(10 + 12) / (5 + 7)\<close>.
\<close>

lemma sending_nacked:
  "radio_txDone settings0 104 0 (\<lambda>lo hi. lo) False True sending =
     Inr (sending\<lparr>schedule :=
                    [(3, cell0\<lparr>dir := DIR_TX, numTx := 12, numTxAck := 7, history := [1],
                              debug_canbeInterfered := [0]\<rparr>)],
                  txQueue := [data_pkt\<lparr>retriesLeft := 3\<rparr>],
                  pktToSend := Some (data_pkt\<lparr>retriesLeft := 3\<rparr>),
                  waitingFor := None, timeCorrectedSlot := Some 104\<rparr>)"
  by (simp add: radio_txDone_def settings0_def sending_def mote0_def cell0_def data_pkt_def
      packet0_def update_cell_def txDone_nacked_def time_correction_def log_backoff_def
      lookup_def retry_or_drop_def reset_backoff_def Let_def)

theorem radio_txDone_nack_counts_as_ack_witness:
  "(\<exists>m'. radio_txDone settings0 104 0 (\<lambda>lo hi. lo) False True sending = Inr m' \<and>
      map_of (schedule m') 3 =
        Some (cell0\<lparr>dir := DIR_TX, numTx := 12, numTxAck := 7, history := [1],
                    debug_canbeInterfered := [0]\<rparr>) \<and>
      txQueue m' = [data_pkt\<lparr>retriesLeft := 3\<rparr>] \<and>
      estimateETX m' 0 = Inr (Some (22 / 12)))"
proof -
  let ?m' = "sending\<lparr>schedule :=
                    [(3, cell0\<lparr>dir := DIR_TX, numTx := 12, numTxAck := 7, history := [1],
                              debug_canbeInterfered := [0]\<rparr>)],
                  txQueue := [data_pkt\<lparr>retriesLeft := 3\<rparr>],
                  pktToSend := Some (data_pkt\<lparr>retriesLeft := 3\<rparr>),
                  waitingFor := None, timeCorrectedSlot := Some 104\<rparr>"
  let ?c = "cell0\<lparr>dir := DIR_TX, numTx := 12, numTxAck := 6\<rparr>"
  have "\<forall>n pdr. tx_or_shared_to n ?c \<and> getPDR sending (Mote n) = Inr pdr \<longrightarrow>
        estimateETX ?m' n =
          (let cells = filter (\<lambda>(ts, c). tx_or_shared_to n c) (schedule sending);
               tx_sum = of_nat NUM_SUFFICIENT_TX + (\<Sum>(ts, c) \<leftarrow> cells. of_nat (numTx c));
               ack_sum = of_int \<lfloor>pdr * of_nat NUM_SUFFICIENT_TX\<rfloor>
                           + (\<Sum>(ts, c) \<leftarrow> cells. of_nat (numTxAck c)) + 1
           in if ack_sum = 0 then Inr None else Inr (Some (tx_sum / ack_sum)))"
    using radio_txDone_nack_counts_as_ack [OF sending_nacked]
    by (elim exE conjE) (simp add: settings0_def sending_def mote0_def)
  from this [rule_format, of 0 "1 / 2"]
  have etx: "estimateETX ?m' 0 = Inr (Some (22 / 12))"
    by (simp add: sending_def mote0_def cell0_def tx_or_shared_to_def getPDR_def
        Let_def floor_eq_iff)
  show ?thesis
    using sending_nacked etx by simp
qed

section \<open>Properties of the backoff resets\<close>

lemma reset_backoff_shared_neighbor:
  "map_of (backoffPerNeigh (reset_backoff st DIR_TXRX_SHARED (Mote n) x)) n = Some 0 \<and>
   map_of (backoffExponentPerNeigh (reset_backoff st DIR_TXRX_SHARED (Mote n) x)) n =
     Some (backoffMinExp st - 1)"
  by (simp add: reset_backoff_def isBroadcast_def tsch_resetBackoffPerNeigh_def update_conv')

lemma reset_backoff_broadcast:
  assumes "(d = DIR_TXRX_SHARED \<and> isBroadcast nb) \<or> (d = DIR_TX \<and> txQueue x = [])"
  shows "backoffBroadcast (reset_backoff st d nb x) = 0 \<and>
         backoffBroadcastExponent (reset_backoff st d nb x) = 1"
  using assms by (auto simp: reset_backoff_def tsch_resetBroadcastBackoff_def)

lemma txQueue_reset_backoff [simp]: "txQueue (reset_backoff st d nb x) = txQueue x"
  by (simp add: reset_backoff_def tsch_resetBackoffPerNeigh_def tsch_resetBroadcastBackoff_def
      split: peer.splits)

lemma txDone_acked_reset:
  "txDone_acked st now ts c pkt m = Inr m' \<Longrightarrow> \<exists>x. m' = reset_backoff st (dir c) (neighbor c) x"
  by (auto simp: txDone_acked_def Let_def split: sum.splits if_splits)

lemma txDone_nacked_reset:
  "txDone_nacked st now ts c pkt m = Inr m' \<Longrightarrow> \<exists>x. m' = reset_backoff st (dir c) (neighbor c) x"
  by (auto simp: txDone_nacked_def Let_def split: sum.splits if_splits)

lemma radio_txDone_reset:
  assumes "radio_txDone st now cbi randint acked nacked m = Inr m'"
    and "map_of (schedule m) (now mod slotframeLength st) = Some c"
    and "acked \<or> nacked"
  shows "\<exists>x. m' = (reset_backoff st (dir c) (neighbor c) x)\<lparr>waitingFor := None\<rparr>"
  using assms
  by (auto simp: radio_txDone_def Let_def split: option.splits if_splits sum.splits
      dest!: txDone_acked_reset txDone_nacked_reset)

lemma radio_txDone_broadcast:
  assumes "radio_txDone st now cbi randint False False m = Inr m'"
    and "pktToSend m = Some pkt" "dstIp pkt = BROADCAST_ADDRESS"
  shows "\<exists>x. m' = (tsch_resetBroadcastBackoff x)\<lparr>waitingFor := None\<rparr>"
  using assms
  by (auto simp: radio_txDone_def Let_def txDone_broadcast_def update_cell_def
      split: option.splits if_splits sum.splits)

text \<open>
  Claim C6, as stated, fails for the broadcast backoff: with \<open>backoffMinExp = 4\<close> the
  reset leaves the exponent 1, not 3, as at the end of the transmission of a DIO.
\<close>

theorem broadcast_backoff_reset_counterexample:
  "backoffMinExp (settings0\<lparr>backoffMinExp := 4\<rparr>) - 1 = 3 \<and>
   backoffBroadcastExponent (tsch_resetBroadcastBackoff beaconing) = 1 \<and>
   radio_txDone (settings0\<lparr>backoffMinExp := 4\<rparr>) 0 0 (\<lambda>lo hi. lo) False False beaconing =
     Inr (beaconing\<lparr>schedule :=
                      [(0, cell0\<lparr>neighbor := Motes [0, 2], debug_canbeInterfered := [0]\<rparr>)],
                    txQueue := [], waitingFor := None,
                    backoffBroadcast := 0, backoffBroadcastExponent := 1\<rparr>)"
  by (simp add: settings0_def beaconing_def mote0_def cell0_def dio_def packet0_def
      radio_txDone_def update_cell_def txDone_broadcast_def tsch_resetBroadcastBackoff_def
      Let_def)

text \<open>
  Claim C6, amended. A reset of the broadcast backoff sets the backoff to 0 and the
  exponent to the constant 1 (the literal \<open>2 - 1\<close>), whatever \<open>backoffMinExp\<close> is; a
  reset of the backoff of a neighbor sets that neighbor's backoff to 0 and its exponent
  to \<open>backoffMinExp - 1\<close>. At the end of a transmission that \<open>radio_txDone\<close> handles: an
  ACK or a NACK in a SHARED cell to a neighbor resets the backoff of that neighbor; an
  ACK or a NACK in a broadcast SHARED cell, or in a TX cell when the queue is then
  empty, resets the broadcast backoff; so does the end of the transmission of a
  broadcast packet.
\<close>

theorem backoff_reset_values:
  "backoffBroadcast (tsch_resetBroadcastBackoff m) = 0 \<and>
   backoffBroadcastExponent (tsch_resetBroadcastBackoff m) = 1 \<and>
   map_of (backoffPerNeigh (tsch_resetBackoffPerNeigh st n m)) n = Some 0 \<and>
   map_of (backoffExponentPerNeigh (tsch_resetBackoffPerNeigh st n m)) n =
     Some (backoffMinExp st - 1) \<and>
   (\<forall>now cbi randint acked nacked m' c.
      radio_txDone st now cbi randint acked nacked m = Inr m' \<and>
      map_of (schedule m) (now mod slotframeLength st) = Some c \<longrightarrow>
        ((acked \<or> nacked) \<and> dir c = DIR_TXRX_SHARED \<and> neighbor c = Mote n \<longrightarrow>
           map_of (backoffPerNeigh m') n = Some 0 \<and>
           map_of (backoffExponentPerNeigh m') n = Some (backoffMinExp st - 1)) \<and>
        ((acked \<or> nacked) \<and>
         (dir c = DIR_TXRX_SHARED \<and> isBroadcast (neighbor c) \<or>
          dir c = DIR_TX \<and> txQueue m' = []) \<longrightarrow>
           backoffBroadcast m' = 0 \<and> backoffBroadcastExponent m' = 1) \<and>
        (\<not> acked \<and> \<not> nacked \<and>
         (\<exists>pkt. pktToSend m = Some pkt \<and> dstIp pkt = BROADCAST_ADDRESS) \<longrightarrow>
           backoffBroadcast m' = 0 \<and> backoffBroadcastExponent m' = 1))"
proof -
  have a: "backoffBroadcast (tsch_resetBroadcastBackoff m) = 0 \<and>
      backoffBroadcastExponent (tsch_resetBroadcastBackoff m) = 1"
    by (simp add: tsch_resetBroadcastBackoff_def)
  have b: "map_of (backoffPerNeigh (tsch_resetBackoffPerNeigh st n m)) n = Some 0 \<and>
      map_of (backoffExponentPerNeigh (tsch_resetBackoffPerNeigh st n m)) n =
        Some (backoffMinExp st - 1)"
    by (simp add: tsch_resetBackoffPerNeigh_def update_conv')
  have c: "map_of (backoffPerNeigh m') n = Some 0 \<and>
           map_of (backoffExponentPerNeigh m') n = Some (backoffMinExp st - 1)"
    if "radio_txDone st now cbi randint acked nacked m = Inr m'"
      "map_of (schedule m) (now mod slotframeLength st) = Some c"
      "acked \<or> nacked" "dir c = DIR_TXRX_SHARED" "neighbor c = Mote n"
    for now cbi randint acked nacked m' c
    using radio_txDone_reset [OF that(1-3)] that(4,5) reset_backoff_shared_neighbor
    by auto
  have d: "backoffBroadcast m' = 0 \<and> backoffBroadcastExponent m' = 1"
    if "radio_txDone st now cbi randint acked nacked m = Inr m'"
      "map_of (schedule m) (now mod slotframeLength st) = Some c"
      "acked \<or> nacked"
      "dir c = DIR_TXRX_SHARED \<and> isBroadcast (neighbor c) \<or> dir c = DIR_TX \<and> txQueue m' = []"
    for now cbi randint acked nacked m' c
  proof -
    from radio_txDone_reset [OF that(1-3)] obtain x
      where x: "m' = (reset_backoff st (dir c) (neighbor c) x)\<lparr>waitingFor := None\<rparr>" ..
    have "(dir c = DIR_TXRX_SHARED \<and> isBroadcast (neighbor c)) \<or>
        (dir c = DIR_TX \<and> txQueue x = [])"
      using that(4) x by auto
    from reset_backoff_broadcast [OF this] show ?thesis
      using x by simp
  qed
  have e: "backoffBroadcast m' = 0 \<and> backoffBroadcastExponent m' = 1"
    if "radio_txDone st now cbi randint acked nacked m = Inr m'" "\<not> acked" "\<not> nacked"
      "pktToSend m = Some pkt" "dstIp pkt = BROADCAST_ADDRESS"
    for now cbi randint acked nacked m' pkt
    using radio_txDone_broadcast [OF _ that(4,5), of st now cbi randint m'] that(1-3)
    by (auto simp: tsch_resetBroadcastBackoff_def)
  show ?thesis
  proof (intro conjI allI impI; (elim conjE)?)
    show "backoffBroadcast (tsch_resetBroadcastBackoff m) = 0"
      "backoffBroadcastExponent (tsch_resetBroadcastBackoff m) = 1"
      using a by simp_all
    show "map_of (backoffPerNeigh (tsch_resetBackoffPerNeigh st n m)) n = Some 0"
      "map_of (backoffExponentPerNeigh (tsch_resetBackoffPerNeigh st n m)) n =
         Some (backoffMinExp st - 1)"
      using b by simp_all
  next
    fix now cbi randint acked nacked m' c
    assume r: "radio_txDone st now cbi randint acked nacked m = Inr m'"
      and s: "map_of (schedule m) (now mod slotframeLength st) = Some c"
    {
      assume "acked \<or> nacked" "dir c = DIR_TXRX_SHARED" "neighbor c = Mote n"
      from c [OF r s this]
      show "map_of (backoffPerNeigh m') n = Some 0"
        "map_of (backoffExponentPerNeigh m') n = Some (backoffMinExp st - 1)"
        by simp_all
    }
    {
      assume "acked \<or> nacked"
        "dir c = DIR_TXRX_SHARED \<and> isBroadcast (neighbor c) \<or> dir c = DIR_TX \<and> txQueue m' = []"
      from d [OF r s this]
      show "backoffBroadcast m' = 0" "backoffBroadcastExponent m' = 1"
        by simp_all
    }
    {
      assume "\<not> acked" "\<not> nacked"
        "\<exists>pkt. pktToSend m = Some pkt \<and> dstIp pkt = BROADCAST_ADDRESS"
      then show "backoffBroadcast m' = 0" "backoffBroadcastExponent m' = 1"
        using e [OF r] by auto
    }
  qed
qed


text \<open>
  A NACK in a SHARED cell to neighbor 0, whose backoff was 3 with exponent 4: with
  \<open>backoffMinExp = 2\<close> the backoff is then 0 and the exponent 1.
\<close>

lemma sharing_nacked:
  "radio_txDone settings0 104 0 (\<lambda>lo hi. lo) False True sharing =
     Inr (sharing\<lparr>schedule :=
                    [(3, cell0\<lparr>numTx := 12, numTxAck := 7, history := [1],
                              debug_canbeInterfered := [0]\<rparr>)],
                  txQueue := [data_pkt\<lparr>retriesLeft := 3\<rparr>],
                  pktToSend := Some (data_pkt\<lparr>retriesLeft := 3\<rparr>),
                  waitingFor := None, timeCorrectedSlot := Some 104,
                  backoffPerNeigh := [(0, 0)], backoffExponentPerNeigh := [(0, 1)]\<rparr>)"
  by (simp add: radio_txDone_def settings0_def sharing_def sending_def mote0_def cell0_def
      data_pkt_def packet0_def update_cell_def txDone_nacked_def time_correction_def
      log_backoff_def lookup_def retry_or_drop_def reset_backoff_def isBroadcast_def
      tsch_resetBackoffPerNeigh_def Let_def)

theorem backoff_reset_values_witness:
  "\<exists>m'. radio_txDone settings0 104 0 (\<lambda>lo hi. lo) False True sharing = Inr m' \<and>
      map_of (backoffPerNeigh m') 0 = Some 0 \<and>
      map_of (backoffExponentPerNeigh m') 0 = Some 1"
proof -
  let ?m' = "sharing\<lparr>schedule :=
                    [(3, cell0\<lparr>numTx := 12, numTxAck := 7, history := [1],
                              debug_canbeInterfered := [0]\<rparr>)],
                  txQueue := [data_pkt\<lparr>retriesLeft := 3\<rparr>],
                  pktToSend := Some (data_pkt\<lparr>retriesLeft := 3\<rparr>),
                  waitingFor := None, timeCorrectedSlot := Some 104,
                  backoffPerNeigh := [(0, 0)], backoffExponentPerNeigh := [(0, 1)]\<rparr>"
  let ?c = "cell0\<lparr>numTx := 12, numTxAck := 6\<rparr>"
  have s: "map_of (schedule sharing) (104 mod slotframeLength settings0) = Some ?c"
    by (simp add: sharing_def sending_def settings0_def)
  have c: "dir ?c = DIR_TXRX_SHARED \<and> neighbor ?c = Mote 0"
    by (simp add: cell0_def)
  from backoff_reset_values [of sharing settings0 0]
  have "\<forall>now cbi randint acked nacked m' c.
      radio_txDone settings0 now cbi randint acked nacked sharing = Inr m' \<and>
      map_of (schedule sharing) (now mod slotframeLength settings0) = Some c \<longrightarrow>
        ((acked \<or> nacked) \<and> dir c = DIR_TXRX_SHARED \<and> neighbor c = Mote 0 \<longrightarrow>
           map_of (backoffPerNeigh m') 0 = Some 0 \<and>
           map_of (backoffExponentPerNeigh m') 0 = Some (backoffMinExp settings0 - 1))"
    by blast
  from this [rule_format, of 104 0 "\<lambda>lo hi. lo" False True ?m' ?c] sharing_nacked s c
  have "map_of (backoffPerNeigh ?m') 0 = Some 0 \<and>
        map_of (backoffExponentPerNeigh ?m') 0 = Some (backoffMinExp settings0 - 1)"
    by simp
  then show ?thesis
    using sharing_nacked by (simp add: settings0_def)
qed


section \<open>Properties of the choice of the cells to remove\<close>

text \<open>The worst-cell order is a rearrangement of the candidates.\<close>

lemma group_split:
  "k \<notin> set ks \<Longrightarrow>
     mset (filter (\<lambda>x. f x = k) xs) + mset (filter (\<lambda>x. f x \<in> set ks) xs) =
     mset (filter (\<lambda>x. f x = k \<or> f x \<in> set ks) xs)"
  by (induction xs) auto

lemma groups_mset:
  "distinct ks \<Longrightarrow>
     (\<Sum>p\<leftarrow>ks. mset (filter (\<lambda>x. f x = p) xs)) = mset (filter (\<lambda>x. f x \<in> set ks) xs)"
proof (induction ks)
  case Nil
  then show ?case by simp
next
  case (Cons k ks)
  then have "k \<notin> set ks" "distinct ks" by auto
  with Cons.IH group_split [of k ks f xs] show ?case
    by (simp del: mset_filter)
qed

lemma worst_first_mset: "mset (worst_first theo xs) = mset xs"
proof -
  let ?ks = "sort (remdups (map cand_pdr xs))"
  have "mset (worst_first theo xs) = (\<Sum>p\<leftarrow>?ks. mset (filter (\<lambda>x. cand_pdr x = p) xs))"
    unfolding worst_first_def mset_concat map_map
    by (rule arg_cong [where f = sum_list], rule map_cong) (auto simp del: mset_filter)
  also have "\<dots> = mset (filter (\<lambda>x. cand_pdr x \<in> set ?ks) xs)"
    by (rule groups_mset) simp
  also have "\<dots> = mset xs"
    by (simp del: mset_filter)
  finally show ?thesis .
qed

text \<open>
  Groups with strictly increasing keys, each sorted, give a sorted concatenation when the
  order puts a smaller key first.
\<close>

lemma sorted_wrt_groups:
  assumes "sorted_wrt (<) ks"
      and "\<And>k. k \<in> set ks \<Longrightarrow> sorted_wrt R (g k)"
      and "\<And>k x. k \<in> set ks \<Longrightarrow> x \<in> set (g k) \<Longrightarrow> key x = k"
      and "\<And>a b. key a < key b \<Longrightarrow> R a b"
  shows "sorted_wrt R (concat (map g ks))"
  using assms
proof (induction ks)
  case Nil
  then show ?case by simp
next
  case (Cons k ks)
  have "sorted_wrt R (concat (map g ks))"
    using Cons by simp
  moreover have "sorted_wrt R (g k)"
    using Cons.prems(2) by simp
  moreover have "R x y" if "x \<in> set (g k)" "y \<in> set (concat (map g ks))" for x y
  proof -
    from that(2) obtain k' where k': "k' \<in> set ks" "y \<in> set (g k')" by auto
    then have "key y = k'" using Cons.prems(3) by simp
    moreover have "key x = k" using that(1) Cons.prems(3) by simp
    moreover have "k < k'" using Cons.prems(1) k' by simp
    ultimately show ?thesis using Cons.prems(4) by simp
  qed
  ultimately show ?case
    by (simp add: sorted_wrt_append)
qed

lemma group_sorted:
  "sorted_wrt (removed_before theo)
     (if p < theo
      then sort_key (\<lambda>x. - int (cand_numTx x)) (filter (\<lambda>x. cand_pdr x = p) xs)
      else sort_key (\<lambda>x. int (cand_numTx x)) (filter (\<lambda>x. cand_pdr x = p) xs))"
proof (cases "p < theo")
  case True
  let ?ys = "sort_key (\<lambda>x. - int (cand_numTx x)) (filter (\<lambda>x. cand_pdr x = p) xs)"
  have "sorted_wrt (\<lambda>x y. - int (cand_numTx x) \<le> - int (cand_numTx y)) ?ys"
    using sorted_sort_key [of "\<lambda>x. - int (cand_numTx x)" "filter (\<lambda>x. cand_pdr x = p) xs"]
    by (simp only: sorted_map)
  then have "sorted_wrt (removed_before theo) ?ys"
    by (rule sorted_wrt_mono_rel [rotated]) (auto simp: removed_before_def True)
  then show ?thesis using True by simp
next
  case False
  let ?ys = "sort_key (\<lambda>x. int (cand_numTx x)) (filter (\<lambda>x. cand_pdr x = p) xs)"
  have "sorted_wrt (\<lambda>x y. int (cand_numTx x) \<le> int (cand_numTx y)) ?ys"
    using sorted_sort_key [of "\<lambda>x. int (cand_numTx x)" "filter (\<lambda>x. cand_pdr x = p) xs"]
    by (simp only: sorted_map)
  then have "sorted_wrt (removed_before theo) ?ys"
    by (rule sorted_wrt_mono_rel [rotated]) (auto simp: removed_before_def False)
  then show ?thesis using False by simp
qed

lemma worst_first_sorted: "sorted_wrt (removed_before theo) (worst_first theo xs)"
  unfolding worst_first_def
proof (rule sorted_wrt_groups [where key = cand_pdr])
  show "sorted_wrt (<) (sort (remdups (map cand_pdr xs)))"
    by (simp add: strict_sorted_iff)
next
  fix k
  show "sorted_wrt (removed_before theo)
     (if k < theo
      then sort_key (\<lambda>x. - int (cand_numTx x)) (filter (\<lambda>x. cand_pdr x = k) xs)
      else sort_key (\<lambda>x. int (cand_numTx x)) (filter (\<lambda>x. cand_pdr x = k) xs))"
    by (rule group_sorted)
next
  fix k x
  assume "x \<in> set (if k < theo
      then sort_key (\<lambda>x. - int (cand_numTx x)) (filter (\<lambda>x. cand_pdr x = k) xs)
      else sort_key (\<lambda>x. int (cand_numTx x)) (filter (\<lambda>x. cand_pdr x = k) xs))"
  then show "cand_pdr x = k"
    by (auto split: if_splits)
next
  fix a b :: candidate
  assume "cand_pdr a < cand_pdr b"
  then show "removed_before theo a b"
    by (simp add: removed_before_def)
qed

text \<open>In such an order every cell below the theoretical PDR stands before every other.\<close>

lemma below_first:
  assumes "sorted_wrt (removed_before theo) ys"
      and "i < length ys" "j < length ys"
      and "cand_pdr (ys ! i) < theo" "theo \<le> cand_pdr (ys ! j)"
  shows "i < j"
proof (rule ccontr)
  assume "\<not> i < j"
  moreover have "i \<noteq> j" using assms(4,5) by auto
  ultimately have "j < i" by simp
  then have "removed_before theo (ys ! j) (ys ! i)"
    using assms(1,2) by (simp add: sorted_wrt_iff_nth_less)
  then show False
    using assms(4,5) by (auto simp: removed_before_def split: if_splits)
qed

text \<open>
  Claim C7, as the code has it. When \<open>sixtopRemoveRandomCell\<close> is unset and
  \<open>_sixtop_removeCells\<close> reaches the deletion, the timeslots it removes are those of the
  first \<open>numCellsToRemove\<close> candidates of an order that rearranges the candidate cells
  (the TX or SHARED cells to the neighbor that are their own parent slot), in which the
  groups of equal cell PDR follow each other by ascending PDR, so that every cell below
  the theoretical link PDR stands before every cell at or above it; within a group
  below the theoretical PDR the cell with the higher \<open>numTx\<close> comes first, within a group
  at or above it the cell with the lower \<open>numTx\<close> comes first. Exactly
  \<open>numCellsToRemove\<close> timeslots are removed.
\<close>

theorem sixtop_removeCells_worst_first:
  assumes "\<not> sixtopRemoveRandomCell st"
      and "sixtop_removeCells st shuffle m n k = Inr tsList"
  shows "\<exists>cands theo ordered.
           removal_candidates m n (schedule m) = Inr cands \<and>
           getPDR m (Mote n) = Inr theo \<and>
           mset ordered = mset cands \<and>
           sorted_wrt (removed_before theo) ordered \<and>
           (\<forall>i j. i < length ordered \<and> j < length ordered \<and>
                  cand_pdr (ordered ! i) < theo \<and> theo \<le> cand_pdr (ordered ! j) \<longrightarrow> i < j) \<and>
           tsList = map fst (take (nat k) ordered) \<and> int (length tsList) = k"
proof -
  from assms obtain cands theo where
    c: "removal_candidates m n (schedule m) = Inr cands" and
    t: "getPDR m (Mote n) = Inr theo" and
    r: "tsList = map fst (py_take k (worst_first theo cands))" and
    l: "int (length tsList) = k"
    by (auto simp: sixtop_removeCells_def Let_def split: sum.splits if_splits)
  from l have "0 \<le> k" by auto
  with r have r': "tsList = map fst (take (nat k) (worst_first theo cands))"
    by (simp add: py_take_def)
  show ?thesis
    using c t r' l worst_first_mset [of theo cands] worst_first_sorted [of theo cands]
      below_first [OF worst_first_sorted [of theo cands]]
    by blast
qed

text \<open>
  The mote \<open>removing\<close>: the candidates, their order with the theoretical PDR 1/2, and the
  removal of three cells.
\<close>

lemma removing_candidates:
  "removal_candidates removing 0 (schedule removing) =
     Inr [(4, 2, 3, 1 / 2), (8, 3, 5, 1 / 2), (12, 5, 20, 1 / 4), (16, 10, 40, 1 / 4)]"
  by (simp add: removing_def mote0_def cell0_def tx_or_shared_to_def getCellPDR_def getPDR_def)

lemma removing_order:
  "worst_first (1 / 2) [(4, 2, 3, 1 / 2), (8, 3, 5, 1 / 2), (12, 5, 20, 1 / 4), (16, 10, 40, 1 / 4)] =
     [(16, 10, 40, 1 / 4), (12, 5, 20, 1 / 4), (4, 2, 3, 1 / 2), (8, 3, 5, 1 / 2)]"
  by (simp add: worst_first_def cand_pdr_def cand_numTx_def)

lemma removing_three:
  "sixtop_removeCells settings0 rev removing 0 3 = Inr [16, 12, 4]"
  by (simp add: sixtop_removeCells_def removing_candidates removing_order settings0_def
      py_take_def Let_def)
    (simp add: removing_def mote0_def lookup_def getPDR_def removing_order py_take_def)

text \<open>
  Claim C7 as stated fails. The cells at slots 4 and 8 are in the same group, of cell PDR
  1/2, which is the theoretical PDR; the cell at slot 8 has the higher \<open>numTx\<close> (5 against
  3), yet of the two it is the cell at slot 4 that is removed when three cells are.
\<close>

theorem sixtop_removeCells_prefers_lower_numTx_counterexample:
  "sixtop_removeCells settings0 rev removing 0 3 = Inr [16, 12, 4] \<and>
   removal_candidates removing 0 (schedule removing) =
     Inr [(4, 2, 3, 1 / 2), (8, 3, 5, 1 / 2), (12, 5, 20, 1 / 4), (16, 10, 40, 1 / 4)] \<and>
   getPDR removing (Mote 0) = Inr (1 / 2) \<and>
   cand_pdr (4, 2, 3, 1 / 2) = cand_pdr (8, 3, 5, 1 / 2) \<and>
   cand_numTx (4, 2, 3, 1 / 2) < cand_numTx (8, 3, 5, 1 / 2)"
  using removing_three removing_candidates
  by (simp add: removing_def mote0_def getPDR_def cand_pdr_def cand_numTx_def)

text \<open>
  The theorem at the mote \<open>removing\<close>: the three removed slots 16, 12 and 4 head an order
  of the four candidates.
\<close>

theorem sixtop_removeCells_worst_first_witness:
  "\<exists>ordered.
     mset ordered =
       mset [(4, 2, 3, 1 / 2), (8, 3, 5, 1 / 2), (12, 5, 20, 1 / 4), (16, 10, 40, 1 / 4)] \<and>
     sorted_wrt (removed_before (1 / 2)) ordered \<and>
     [16, 12, 4] = map fst (take 3 ordered)"
proof -
  have "\<not> sixtopRemoveRandomCell settings0"
    by (simp add: settings0_def)
  from sixtop_removeCells_worst_first [OF this removing_three]
  obtain cands theo ordered where
    c: "removal_candidates removing 0 (schedule removing) = Inr cands" and
    t: "getPDR removing (Mote 0) = Inr theo" and
    o: "mset ordered = mset cands"
       "sorted_wrt (removed_before theo) ordered"
       "[16, 12, 4] = map fst (take (nat 3) ordered)"
    by (elim exE conjE) (rule that)
  have "getPDR removing (Mote 0) = Inr (1 / 2)"
    by (simp add: removing_def mote0_def getPDR_def)
  with t have th: "theo = 1 / 2"
    by (simp only: sum.inject)
  from c removing_candidates
  have cs: "cands = [(4, 2, 3, 1 / 2), (8, 3, 5, 1 / 2), (12, 5, 20, 1 / 4), (16, 10, 40, 1 / 4)]"
    by (simp only: sum.inject)
  have n: "nat 3 = 3"
    by simp
  from o(1) have 1: "mset ordered =
      mset [(4, 2, 3, 1 / 2), (8, 3, 5, 1 / 2), (12, 5, 20, 1 / 4), (16, 10, 40, 1 / 4)]"
    unfolding cs .
  from o(2) have 2: "sorted_wrt (removed_before (1 / 2)) ordered"
    unfolding th .
  from o(3) have 3: "[16, 12, 4] = map fst (take 3 ordered)"
    unfolding n .
  from 1 2 3 show ?thesis
    by (intro exI [of _ ordered] conjI)
qed

end
